theory Spec2Isabelle
  imports Main
begin

section \<open>Python values, dictionaries and exceptions\<close>

text \<open>
  The workflow state of the repository is a Python \<^verbatim>\<open>dict\<close> from field names to
  dynamically typed values (\<^verbatim>\<open>WorkflowState\<close> in \<^verbatim>\<open>src/workflows/state.py\<close> is a
  \<^verbatim>\<open>TypedDict\<close>, which is a plain dict at run time).  Values are modelled by the
  datatype \<open>pyval\<close>; a nested dict is an association list in insertion order, the state
  itself and the deltas returned by nodes are maps from keys to values.  Floating point
  numbers do not occur in the modelled code paths and are left out.
\<close>

datatype pyval =
    PNone
  | PBool bool
  | PInt int
  | PStr string
  | PList "pyval list"
  | PDict "(string \<times> pyval) list"

type_synonym state = "string \<rightharpoonup> pyval"
type_synonym delta = "string \<rightharpoonup> pyval"

text \<open>
  Exceptions are values.  \<open>CancelledError\<close> derives from \<^verbatim>\<open>BaseException\<close> only, so an
  \<^verbatim>\<open>except Exception\<close> clause does not catch it.  \<open>NotModelled\<close> marks an application of
  a Python builtin to operands of a type the annotations of the source exclude and
  whose exact Python result this development does not describe.
\<close>

datatype exn =
    AttributeError string
  | TypeError string
  | KeyError string
  | ValueError string
  | RuntimeError string
  | CancelledError
  | NotModelled

fun is_Exception :: "exn \<Rightarrow> bool" where
  "is_Exception CancelledError = False"
| "is_Exception _ = True"

text \<open>\<^verbatim>\<open>str(e)\<close>: the message of the exception.\<close>

fun str_exn :: "exn \<Rightarrow> string" where
  "str_exn (AttributeError m) = m"
| "str_exn (TypeError m) = m"
| "str_exn (KeyError m) = m"
| "str_exn (ValueError m) = m"
| "str_exn (RuntimeError m) = m"
| "str_exn CancelledError = []"
| "str_exn NotModelled = []"

text \<open>Sequencing of computations that may raise.\<close>

definition bnd :: "exn + 'a \<Rightarrow> ('a \<Rightarrow> exn + 'b) \<Rightarrow> exn + 'b" where
  "bnd m f = (case m of Inl e \<Rightarrow> Inl e | Inr x \<Rightarrow> f x)"

text \<open>Truth value testing (\<^verbatim>\<open>if x\<close>, \<^verbatim>\<open>not x\<close>, \<^verbatim>\<open>x or y\<close>).\<close>

fun truthy :: "pyval \<Rightarrow> bool" where
  "truthy PNone = False"
| "truthy (PBool b) = b"
| "truthy (PInt i) = (i \<noteq> 0)"
| "truthy (PStr s) = (s \<noteq> [])"
| "truthy (PList xs) = (xs \<noteq> [])"
| "truthy (PDict kvs) = (kvs \<noteq> [])"

definition py_or :: "pyval \<Rightarrow> pyval \<Rightarrow> pyval" where
  "py_or x y = (if truthy x then x else y)"

text \<open>\<^verbatim>\<open>d.get(k, default)\<close> and \<^verbatim>\<open>d.get(k)\<close> on the state dict.\<close>

definition get_or :: "state \<Rightarrow> string \<Rightarrow> pyval \<Rightarrow> pyval" where
  "get_or s k d = (case s k of None \<Rightarrow> d | Some v \<Rightarrow> v)"

definition get_none :: "state \<Rightarrow> string \<Rightarrow> pyval" where
  "get_none s k = get_or s k PNone"

text \<open>\<^verbatim>\<open>s[k]\<close> on the state dict raises \<^verbatim>\<open>KeyError\<close> for a missing key.\<close>

definition getitem :: "state \<Rightarrow> string \<Rightarrow> exn + pyval" where
  "getitem s k = (case s k of None \<Rightarrow> Inl (KeyError k) | Some v \<Rightarrow> Inr v)"

text \<open>
  \<^verbatim>\<open>x.get(k, default)\<close> on an arbitrary value: only a dict has the method.
\<close>

fun py_get_or :: "pyval \<Rightarrow> string \<Rightarrow> pyval \<Rightarrow> exn + pyval" where
  "py_get_or (PDict kvs) k d = Inr (case map_of kvs k of None \<Rightarrow> d | Some v \<Rightarrow> v)"
| "py_get_or _ k d = Inl (AttributeError ''object has no attribute 'get' '')"

definition py_get :: "pyval \<Rightarrow> string \<Rightarrow> exn + pyval" where
  "py_get x k = py_get_or x k PNone"

text \<open>\<^verbatim>\<open>len(x)\<close>.\<close>

fun py_len :: "pyval \<Rightarrow> exn + nat" where
  "py_len (PStr s) = Inr (length s)"
| "py_len (PList xs) = Inr (length xs)"
| "py_len (PDict kvs) = Inr (length kvs)"
| "py_len _ = Inl (TypeError ''object has no len()'')"

text \<open>
  Hashability, needed for a dict lookup or a set membership test with the value as key.
\<close>

fun hashable :: "pyval \<Rightarrow> bool" where
  "hashable (PList _) = False"
| "hashable (PDict _) = False"
| "hashable _ = True"

text \<open>
  Numbers: \<^verbatim>\<open>bool\<close> is a subclass of \<^verbatim>\<open>int\<close>.
\<close>

fun num_of :: "pyval \<Rightarrow> int option" where
  "num_of (PInt i) = Some i"
| "num_of (PBool b) = Some (if b then 1 else 0)"
| "num_of _ = None"

text \<open>
  \<^verbatim>\<open>x == y\<close>: numbers are equal by value (\<^verbatim>\<open>True == 1\<close>), lists element by element,
  dicts when they have the same keys with equal values, whatever the order of the keys;
  values of different kinds are unequal.
\<close>

function (sequential) py_eq :: "pyval \<Rightarrow> pyval \<Rightarrow> bool" where
  "py_eq (PList xs) (PList ys) = list_all2 py_eq xs ys"
| "py_eq (PDict kvs) (PDict kvs') =
     list_all (\<lambda>k. case map_of kvs k of
                     None \<Rightarrow> False
                   | Some v \<Rightarrow> (case map_of kvs' k of None \<Rightarrow> False | Some v' \<Rightarrow> py_eq v v'))
       (map fst kvs @ map fst kvs')"
| "py_eq a b = (case (num_of a, num_of b) of (Some x, Some y) \<Rightarrow> x = y | _ \<Rightarrow> a = b)"
  by pat_completeness auto

termination py_eq
proof (relation "measure (\<lambda>(a, b). size a)")
  show "wf (measure (\<lambda>(a, b). size a))" by simp
next
  fix xs ys :: "pyval list" and x y :: pyval
  assume "x \<in> set xs"
  then have "size x \<le> size_list size xs" by (simp add: size_list_estimation')
  then show "((x, y), (PList xs, PList ys)) \<in> measure (\<lambda>(a, b). size a)" by simp
next
  fix kvs kvs' :: "(string \<times> pyval) list" and k :: string and v v' :: pyval
  assume "map_of kvs k = Some v"
  then have "(k, v) \<in> set kvs" by (rule map_of_SomeD)
  then have "size_prod (\<lambda>_. 0) size (k, v) \<le> size_list (size_prod (\<lambda>_. 0) size) kvs"
    by (simp add: size_list_estimation')
  then show "((v, v'), (PDict kvs, PDict kvs')) \<in> measure (\<lambda>(a, b). size a)" by simp
qed

text \<open>
  Ordering comparisons.  Numbers compare by value, strings and lists
  lexicographically (a list by the first pair of unequal elements, then by length);
  \<^verbatim>\<open>None\<close>, dicts and operands of different kinds raise \<^verbatim>\<open>TypeError\<close>.
\<close>

datatype cmp = LT | EQ | GT

fun str_cmp :: "string \<Rightarrow> string \<Rightarrow> cmp" where
  "str_cmp [] [] = EQ"
| "str_cmp [] (y # ys) = LT"
| "str_cmp (x # xs) [] = GT"
| "str_cmp (x # xs) (y # ys) =
     (if (of_char x :: nat) < of_char y then LT
      else if (of_char y :: nat) < of_char x then GT
      else str_cmp xs ys)"

fun py_order :: "pyval \<Rightarrow> pyval \<Rightarrow> exn + cmp"
  and list_order :: "pyval list \<Rightarrow> pyval list \<Rightarrow> exn + cmp" where
  "py_order (PStr a) (PStr b) = Inr (str_cmp a b)"
| "py_order (PList xs) (PList ys) = list_order xs ys"
| "py_order a b =
     (case (num_of a, num_of b) of
        (Some x, Some y) \<Rightarrow> Inr (if x < y then LT else if x = y then EQ else GT)
      | _ \<Rightarrow> Inl (TypeError ''comparison not supported between these instances''))"
| "list_order [] [] = Inr EQ"
| "list_order [] (y # ys) = Inr LT"
| "list_order (x # xs) [] = Inr GT"
| "list_order (x # xs) (y # ys) = (if py_eq x y then list_order xs ys else py_order x y)"

definition py_ge :: "pyval \<Rightarrow> pyval \<Rightarrow> exn + bool" where
  "py_ge x y = bnd (py_order x y) (\<lambda>c. Inr (c \<noteq> LT))"

definition py_lt :: "pyval \<Rightarrow> pyval \<Rightarrow> exn + bool" where
  "py_lt x y = bnd (py_order x y) (\<lambda>c. Inr (c = LT))"

text \<open>
  \<^verbatim>\<open>int(x)\<close> for the values a counter can take; parsing a string is not modelled.
\<close>

fun py_int :: "pyval \<Rightarrow> exn + int" where
  "py_int (PInt i) = Inr i"
| "py_int (PBool b) = Inr (if b then 1 else 0)"
| "py_int (PStr _) = Inl NotModelled"
| "py_int _ = Inl (TypeError ''int() argument must be a string or a number'')"

section \<open>Merging a delta into the state\<close>

text \<open>
  \<^verbatim>\<open>WorkflowState\<close> declares no reducer for any field, so the graph built in
  \<^verbatim>\<open>create_property_workflow\<close> applies a node's delta as a plain key-wise overwrite;
  the same operation is written out in \<^verbatim>\<open>chat_endpoint\<close> as
  \<^verbatim>\<open>initial_state.update(booking_updates)\<close> and \<^verbatim>\<open>{**initial_state, ...}\<close>.
\<close>

definition merge :: "state \<Rightarrow> delta \<Rightarrow> state" where
  "merge s d = (\<lambda>k. case d k of Some v \<Rightarrow> Some v | None \<Rightarrow> s k)"

section \<open>Run configuration\<close>

text \<open>
  A node receives \<^verbatim>\<open>config=None\<close>, a dict (the \<^verbatim>\<open>RunnableConfig\<close> that
  \<^verbatim>\<open>chat_endpoint\<close> passes to \<^verbatim>\<open>workflow.ainvoke\<close>) or an object with attributes (a
  \<^verbatim>\<open>Configuration\<close> instance).  The nodes read options with
  \<^verbatim>\<open>getattr(config, name, default) if config else default\<close>: a dict has no such
  attribute, so for a dict the default is always taken.
\<close>

datatype config =
    NoConfig
  | DictConfig "(string \<times> pyval) list"
  | ObjConfig "(string \<times> pyval) list"

fun config_truthy :: "config \<Rightarrow> bool" where
  "config_truthy NoConfig = False"
| "config_truthy (DictConfig kvs) = (kvs \<noteq> [])"
| "config_truthy (ObjConfig _) = True"

fun config_getattr :: "config \<Rightarrow> string \<Rightarrow> pyval \<Rightarrow> pyval" where
  "config_getattr (ObjConfig attrs) name d = (case map_of attrs name of None \<Rightarrow> d | Some v \<Rightarrow> v)"
| "config_getattr _ name d = d"

text \<open>The configuration \<^verbatim>\<open>chat_endpoint\<close> passes to the graph.\<close>

definition endpoint_config :: config where
  "endpoint_config = DictConfig
     [(''recursion_limit'', PInt 10), (''max_search_iterations'', PInt 3),
      (''max_research_loops'', PInt 1)]"

section \<open>Routers of the graph (\<^verbatim>\<open>src/workflows/graph.py\<close>)\<close>

text \<open>
  Node identifiers are the strings of the source.  A router returns the identifier of
  the next node or raises.
\<close>

definition intent_routes :: "(pyval \<times> string) list" where
  "intent_routes =
     [(PStr ''property_search'', ''search_properties''),
      (PStr ''schedule_tour'', ''get_available_slots''),
      (PStr ''confirm_booking'', ''create_calendar_event''),
      (PStr ''non_property'', ''generate_response'')]"

definition route_from_intent :: "state \<Rightarrow> exn + string" where
  "route_from_intent s =
     (let intent = get_or s ''intent'' (PStr ''general_info'') in
      if hashable intent
      then Inr (case map_of intent_routes intent of
                  None \<Rightarrow> ''generate_response'' | Some r \<Rightarrow> r)
      else Inl (TypeError ''unhashable type''))"

definition valid_routes :: "string list" where
  "valid_routes =
     [''search_properties'', ''get_available_slots'', ''collect_user_info'',
      ''create_calendar_event'', ''send_sms_confirmation'', ''generate_response'']"

text \<open>
  \<^verbatim>\<open>x if x in names else "generate_response"\<close> for a set of strings \<open>names\<close>: the
  membership test hashes \<open>x\<close>.
\<close>

fun route_if_member :: "pyval \<Rightarrow> string list \<Rightarrow> exn + string" where
  "route_if_member (PStr x) names =
     Inr (if x \<in> set names then x else ''generate_response'')"
| "route_if_member (PList _) names = Inl (TypeError ''unhashable type'')"
| "route_if_member (PDict _) names = Inl (TypeError ''unhashable type'')"
| "route_if_member _ names = Inr ''generate_response''"

definition route_next_step :: "state \<Rightarrow> exn + string" where
  "route_next_step s =
     route_if_member (get_or s ''next_step'' (PStr ''generate_response'')) valid_routes"

definition route_after_search :: "state \<Rightarrow> exn + string" where
  "route_after_search s =
     bnd (py_get (get_or s ''fallback_context'' (PDict [])) ''type'') (\<lambda>t.
       if t = PStr ''need_criteria'' then Inr ''generate_response''
       else
         bnd (py_ge (get_or s ''search_iterations'' (PInt 0))
                    (get_or s ''max_search_iterations'' (PInt 3))) (\<lambda>exceeded.
           if exceeded then Inr ''generate_response''
           else if truthy (get_or s ''properties'' (PList [])) then Inr ''generate_response''
           else Inr ''reflect''))"

definition route_after_slots :: "state \<Rightarrow> exn + string" where
  "route_after_slots s = Inr ''collect_user_info''"

definition required_state_fields :: "string list" where
  "required_state_fields = [''user_name'', ''user_email'', ''user_phone'', ''user_pets'']"

definition route_after_user_info :: "state \<Rightarrow> exn + string" where
  "route_after_user_info s =
     (if list_all (\<lambda>field. truthy (get_none s field)) required_state_fields
      then Inr ''create_calendar_event''
      else Inr ''generate_response'')"

definition route_after_calendar :: "state \<Rightarrow> exn + string" where
  "route_after_calendar s =
     (if truthy (get_none s ''calendar_event_id'')
      then Inr ''send_sms_confirmation''
      else Inr ''generate_response'')"

definition route_after_sms :: "state \<Rightarrow> exn + string" where
  "route_after_sms s = Inr ''generate_response''"

definition route_after_reflect :: "state \<Rightarrow> exn + string" where
  "route_after_reflect s =
     bnd (py_ge (get_or s ''reflection_loops'' (PInt 0))
                (get_or s ''max_research_loops'' (PInt 1))) (\<lambda>exhausted.
       if exhausted then Inr ''generate_response''
       else route_if_member (get_or s ''next_step'' (PStr ''generate_response''))
              [''search_properties'', ''generate_response''])"

text \<open>
  The path maps given to \<^verbatim>\<open>add_conditional_edges\<close>: for each node its router and
  the admissible targets.  \<^verbatim>\<open>generate_response\<close> has the single edge to \<^verbatim>\<open>END\<close>.
\<close>

definition END :: string where
  "END = ''__end__''"

definition edges_from_intent :: "string list" where
  "edges_from_intent =
     [''search_properties'', ''get_available_slots'', ''create_calendar_event'',
      ''generate_response'']"

definition edges_after_search :: "string list" where
  "edges_after_search = [''reflect'', ''generate_response'']"

definition edges_after_reflect :: "string list" where
  "edges_after_reflect = [''search_properties'', ''generate_response'']"

definition edges_after_slots :: "string list" where
  "edges_after_slots = [''collect_user_info'', ''generate_response'']"

definition edges_after_user_info :: "string list" where
  "edges_after_user_info = [''create_calendar_event'', ''generate_response'']"

definition edges_after_calendar :: "string list" where
  "edges_after_calendar = [''send_sms_confirmation'', ''generate_response'']"

definition edges_after_sms :: "string list" where
  "edges_after_sms = [''generate_response'']"

text \<open>
  The fields the routers read, with the types \<^verbatim>\<open>WorkflowState\<close> annotates and the
  graph's nodes write: the fallback context is absent or a dict, a counter or ceiling is
  absent or an integer, the intent and the next-step hint are absent, \<^verbatim>\<open>None\<close> or a
  string.
\<close>

fun absent_or_dict :: "pyval option \<Rightarrow> bool" where
  "absent_or_dict None = True"
| "absent_or_dict (Some (PDict _)) = True"
| "absent_or_dict (Some _) = False"

fun absent_or_int :: "pyval option \<Rightarrow> bool" where
  "absent_or_int None = True"
| "absent_or_int (Some (PInt _)) = True"
| "absent_or_int (Some _) = False"

fun absent_or_opt_str :: "pyval option \<Rightarrow> bool" where
  "absent_or_opt_str None = True"
| "absent_or_opt_str (Some PNone) = True"
| "absent_or_opt_str (Some (PStr _)) = True"
| "absent_or_opt_str (Some _) = False"

definition router_fields_typed :: "state \<Rightarrow> bool" where
  "router_fields_typed s =
     (absent_or_dict (s ''fallback_context'') \<and>
      absent_or_int (s ''search_iterations'') \<and>
      absent_or_int (s ''max_search_iterations'') \<and>
      absent_or_int (s ''reflection_loops'') \<and>
      absent_or_int (s ''max_research_loops'') \<and>
      absent_or_opt_str (s ''intent'') \<and>
      absent_or_opt_str (s ''next_step''))"

text \<open>
  The states on which a router's reads do not raise.  The dict lookup of
  \<^verbatim>\<open>route_from_intent\<close> and the set membership tests of \<^verbatim>\<open>route_next_step\<close> and
  \<^verbatim>\<open>route_after_reflect\<close> hash the value; \<^verbatim>\<open>route_after_search\<close> calls \<^verbatim>\<open>get\<close> on the
  fallback context and, unless its type is \<^verbatim>\<open>need_criteria\<close>, compares the two search
  counters; \<^verbatim>\<open>route_after_reflect\<close> compares the two reflection counters and looks at
  the next-step hint only below the ceiling.
\<close>

definition ordered :: "pyval \<Rightarrow> pyval \<Rightarrow> bool" where
  "ordered a b = (case py_order a b of Inl e \<Rightarrow> False | Inr c \<Rightarrow> True)"

definition intent_routable :: "state \<Rightarrow> bool" where
  "intent_routable s = hashable (get_or s ''intent'' (PStr ''general_info''))"

definition next_step_routable :: "state \<Rightarrow> bool" where
  "next_step_routable s = hashable (get_or s ''next_step'' (PStr ''generate_response''))"

definition search_routable :: "state \<Rightarrow> bool" where
  "search_routable s =
     (case get_or s ''fallback_context'' (PDict []) of
        PDict kvs \<Rightarrow>
          map_of kvs ''type'' = Some (PStr ''need_criteria'') \<or>
          ordered (get_or s ''search_iterations'' (PInt 0))
                  (get_or s ''max_search_iterations'' (PInt 3))
      | other \<Rightarrow> False)"

definition reflect_routable :: "state \<Rightarrow> bool" where
  "reflect_routable s =
     (ordered (get_or s ''reflection_loops'' (PInt 0)) (get_or s ''max_research_loops'' (PInt 1)) \<and>
      (py_ge (get_or s ''reflection_loops'' (PInt 0)) (get_or s ''max_research_loops'' (PInt 1))
         = Inr True \<or>
       next_step_routable s))"

text \<open>
  A state with a boolean intent, string counters and a next-step hint that names no node.
\<close>

definition odd_state :: state where
  "odd_state =
     [''intent'' \<mapsto> PBool True, ''next_step'' \<mapsto> PStr ''nowhere'',
      ''properties'' \<mapsto> PList [PDict [(''id'', PStr ''p1'')]],
      ''fallback_context'' \<mapsto> PDict [(''type'', PStr ''no_properties'')],
      ''search_iterations'' \<mapsto> PStr ''2'', ''max_search_iterations'' \<mapsto> PStr ''3'',
      ''reflection_loops'' \<mapsto> PBool False, ''max_research_loops'' \<mapsto> PInt 1]"

section \<open>The reflect node (\<^verbatim>\<open>src/workflows/nodes/reflection.py\<close>)\<close>

text \<open>The body of \<^verbatim>\<open>ReflectionNode.reflect\<close>, before its decorators.\<close>

definition reflect_body :: "state \<Rightarrow> config \<Rightarrow> exn + delta" where
  "reflect_body s cfg =
     (let properties = get_or s ''properties'' (PList []);
          fallback_context = get_or s ''fallback_context'' (PDict [])
      in
      bnd (py_get fallback_context ''type'') (\<lambda>t.
        if t = PStr ''need_criteria''
        then Inr [''reflection_notes'' \<mapsto>
                    PStr ''User needs to provide more specific search criteria.'',
                  ''needs_more_research'' \<mapsto> PBool False,
                  ''next_step'' \<mapsto> PStr ''generate_response'']
        else
          bnd (py_len properties) (\<lambda>n.
            let needs_more = (n = 0);
                loops_allowed =
                  (if config_truthy cfg
                   then config_getattr cfg ''max_research_loops'' (PInt 1)
                   else PInt 1)
            in
            bnd (py_int (py_or (get_or s ''reflection_loops'' (PInt 0)) (PInt 0)))
              (\<lambda>current_loops.
                bnd (if needs_more then py_lt (PInt current_loops) loops_allowed
                     else Inr False) (\<lambda>again.
                  if again
                  then Inr [''reflection_notes'' \<mapsto>
                              PStr ''Insufficient results. Try refining search.'',
                            ''needs_more_research'' \<mapsto> PBool True,
                            ''reflection_loops'' \<mapsto> PInt (current_loops + 1),
                            ''next_step'' \<mapsto> PStr ''search_properties'']
                  else Inr [''reflection_notes'' \<mapsto>
                              PStr ''Results sufficient or loop budget exhausted. Proceed to finalize.'',
                            ''needs_more_research'' \<mapsto> PBool False,
                            ''next_step'' \<mapsto> PStr ''generate_response''])))))"

section \<open>Decorators around the nodes\<close>

text \<open>
  Calls to the visualizer are recorded as a list of events (node identifier and status);
  the visualizer itself is an external sink.  A decorated node takes the state and the
  configuration and yields the events it reported and either a delta or an exception.
\<close>

datatype node_status = RUNNING | COMPLETED | ERROR

type_synonym event = "string \<times> node_status"
type_synonym node_fn = "state \<Rightarrow> config \<Rightarrow> event list \<times> (exn + delta)"

text \<open>A node body that reports nothing by itself.\<close>

definition untraced :: "(state \<Rightarrow> config \<Rightarrow> exn + delta) \<Rightarrow> node_fn" where
  "untraced body s cfg = ([], body s cfg)"

text \<open>
  \<^verbatim>\<open>error_handler\<close> (\<^verbatim>\<open>src/workflows/nodes/base.py\<close>):
  \<^verbatim>\<open>except Exception as e: return {"error": str(e)}\<close>.
\<close>

definition error_handler :: "node_fn \<Rightarrow> node_fn" where
  "error_handler func s cfg =
     (case func s cfg of
        (ev, Inr d) \<Rightarrow> (ev, Inr d)
      | (ev, Inl e) \<Rightarrow>
          if is_Exception e then (ev, Inr [''error'' \<mapsto> PStr (str_exn e)])
          else (ev, Inl e))"

text \<open>
  \<^verbatim>\<open>track_workflow_execution\<close> (\<^verbatim>\<open>src/workflows/nodes/base.py\<close>): reports the start,
  runs the node, reports completion or the error, and re-raises (\<^verbatim>\<open>raise e\<close>).
\<close>

definition track_workflow_execution :: "string \<Rightarrow> node_fn \<Rightarrow> node_fn" where
  "track_workflow_execution node_name func s cfg =
     (case func s cfg of
        (ev, Inr d) \<Rightarrow> ((node_name, RUNNING) # ev @ [(node_name, COMPLETED)], Inr d)
      | (ev, Inl e) \<Rightarrow>
          if is_Exception e then ((node_name, RUNNING) # ev @ [(node_name, ERROR)], Inl e)
          else ((node_name, RUNNING) # ev, Inl e))"

text \<open>
  \<^verbatim>\<open>track_node_execution\<close> (\<^verbatim>\<open>src/visualization/node_wrapper.py\<close>), the wrapper placed
  around every node in \<^verbatim>\<open>WorkflowNodes\<close>.  It builds \<^verbatim>\<open>input_data\<close> before its
  \<^verbatim>\<open>try\<close> (two calls of \<^verbatim>\<open>len\<close> that may raise), and \<^verbatim>\<open>output_data\<close> inside it
  (two calls of \<^verbatim>\<open>len\<close> and two slices \<^verbatim>\<open>x[:n] if x else ""\<close>); its handler reports
  the error and ends in a bare \<^verbatim>\<open>raise\<close>.
\<close>

fun slice_if_truthy :: "pyval \<Rightarrow> exn + unit" where
  "slice_if_truthy (PStr _) = Inr ()"
| "slice_if_truthy (PList _) = Inr ()"
| "slice_if_truthy v =
     (if truthy v then Inl (TypeError ''object is not subscriptable'') else Inr ())"

definition input_data :: "state \<Rightarrow> exn + unit" where
  "input_data s =
     bnd (py_len (get_or s ''properties'' (PList []))) (\<lambda>_.
     bnd (py_len (get_or s ''available_slots'' (PList []))) (\<lambda>_. Inr ()))"

definition output_data :: "delta \<Rightarrow> exn + unit" where
  "output_data r =
     bnd (py_len (get_or r ''properties'' (PList []))) (\<lambda>_.
     bnd (slice_if_truthy (get_none r ''response_message'')) (\<lambda>_.
     bnd (py_len (get_or r ''available_slots'' (PList []))) (\<lambda>_.
     slice_if_truthy (get_none r ''reflection_notes''))))"

definition track_node_execution :: "string \<Rightarrow> node_fn \<Rightarrow> node_fn" where
  "track_node_execution node_id func s cfg =
     (case input_data s of
        Inl e \<Rightarrow> ([], Inl e)
      | Inr _ \<Rightarrow>
         (case func s cfg of
            (ev, Inl e) \<Rightarrow>
              if is_Exception e then ((node_id, RUNNING) # ev @ [(node_id, ERROR)], Inl e)
              else ((node_id, RUNNING) # ev, Inl e)
          | (ev, Inr r) \<Rightarrow>
             (case output_data r of
                Inl e \<Rightarrow> ((node_id, RUNNING) # ev @ [(node_id, ERROR)], Inl e)
              | Inr _ \<Rightarrow> ((node_id, RUNNING) # ev @ [(node_id, COMPLETED)], Inr r))))"

text \<open>
  The reflect node as the graph calls it: \<^verbatim>\<open>WorkflowNodes.reflect\<close> (tracked) delegates
  to \<^verbatim>\<open>ReflectionNode.reflect\<close>, decorated with \<^verbatim>\<open>@error_handler\<close> over
  \<^verbatim>\<open>@track_workflow_execution("reflect")\<close>.
\<close>

definition reflect :: node_fn where
  "reflect =
     track_node_execution ''reflect''
       (error_handler (track_workflow_execution ''reflect'' (untraced reflect_body)))"

section \<open>The terminal node (\<^verbatim>\<open>src/workflows/nodes/response_generator.py\<close>)\<close>

text \<open>
  \<^verbatim>\<open>str(x)\<close> of a string is the string; for any other value it is the value's
  \<^verbatim>\<open>repr\<close>, which is left as a parameter \<open>repr\<close> of the functions that format values.
\<close>

fun py_str :: "(pyval \<Rightarrow> string) \<Rightarrow> pyval \<Rightarrow> string" where
  "py_str repr (PStr s) = s"
| "py_str repr v = repr v"

text \<open>
  \<^verbatim>\<open>[str(action) for action in actions[:3]]\<close> for a truthy \<^verbatim>\<open>actions\<close>: a list or a
  string can be sliced and iterated, anything else raises.
\<close>

fun first_actions :: "(pyval \<Rightarrow> string) \<Rightarrow> pyval \<Rightarrow> exn + pyval list" where
  "first_actions repr (PList xs) = Inr (map (\<lambda>a. PStr (py_str repr a)) (take 3 xs))"
| "first_actions repr (PStr cs) = Inr (map (\<lambda>c. PStr [c]) (take 3 cs))"
| "first_actions repr _ = Inl (TypeError ''object is not subscriptable'')"

definition default_message :: string where
  "default_message = ''I'm here to help you with your property needs.''"

definition default_actions :: "pyval list" where
  "default_actions = [PStr ''Ask about properties'', PStr ''Schedule a tour'', PStr ''Get help'']"

definition process_response :: "(pyval \<Rightarrow> string) \<Rightarrow> pyval \<Rightarrow> exn + delta" where
  "process_response repr response =
     bnd (py_get_or response ''message'' (PStr default_message)) (\<lambda>message.
     bnd (py_get_or response ''suggested_actions'' (PList [])) (\<lambda>actions.
       if truthy actions
       then bnd (first_actions repr actions) (\<lambda>acts.
              Inr [''response_message'' \<mapsto> message, ''suggested_actions'' \<mapsto> PList acts])
       else Inr [''response_message'' \<mapsto> message,
                 ''suggested_actions'' \<mapsto> PList default_actions]))"

definition ultimate_fallback :: delta where
  "ultimate_fallback =
     [''response_message'' \<mapsto>
        PStr ''I apologize, but I encountered an error. Please try again.'',
      ''suggested_actions'' \<mapsto>
        PList [PStr ''Try rephrasing your question'', PStr ''Contact support'',
               PStr ''Ask for help'']]"

text \<open>
  \<^verbatim>\<open>_handle_response_error\<close>: \<open>retry\<close> is what the second call of the response
  collaborator returns or raises.  The arguments of that call read
  \<^verbatim>\<open>state["user_query"]\<close>; the bare \<^verbatim>\<open>except:\<close> catches everything.
\<close>

definition handle_response_error ::
  "(pyval \<Rightarrow> string) \<Rightarrow> (exn + pyval) \<Rightarrow> state \<Rightarrow> delta" where
  "handle_response_error repr retry s =
     (case bnd (getitem s ''user_query'') (\<lambda>_. bnd retry (process_response repr)) of
        Inr updates \<Rightarrow> updates
      | Inl _ \<Rightarrow> ultimate_fallback)"

text \<open>
  The body of \<^verbatim>\<open>ResponseGeneratorNode.generate_response\<close>: \<open>first\<close> is what the
  call \<^verbatim>\<open>self.openai_service.generate_response(**response_params)\<close> returns or raises.
\<close>

definition generate_response_body ::
  "(pyval \<Rightarrow> string) \<Rightarrow> (exn + pyval) \<Rightarrow> (exn + pyval) \<Rightarrow> state \<Rightarrow> config \<Rightarrow> exn + delta" where
  "generate_response_body repr first retry s cfg =
     (case bnd first (process_response repr) of
        Inr updates \<Rightarrow> Inr (updates(''workflow_complete'' \<mapsto> PBool True))
      | Inl e \<Rightarrow>
          if is_Exception e
          then Inr ((handle_response_error repr retry s)(''workflow_complete'' \<mapsto> PBool True))
          else Inl e)"

definition generate_response ::
  "(pyval \<Rightarrow> string) \<Rightarrow> (exn + pyval) \<Rightarrow> (exn + pyval) \<Rightarrow> node_fn" where
  "generate_response repr first retry =
     track_node_execution ''generate_response''
       (track_workflow_execution ''generate_response''
          (untraced (generate_response_body repr first retry)))"

text \<open>A non-empty string value.\<close>

fun nonempty_str :: "pyval \<Rightarrow> bool" where
  "nonempty_str (PStr s) = (s \<noteq> [])"
| "nonempty_str _ = False"

section \<open>Strings\<close>

text \<open>
  A \<open>char\<close> stands for a code point below 256; text outside that range is not
  modelled.  The character classes are those of Python's \<^verbatim>\<open>str\<close> methods on that range
  (\<^verbatim>\<open>isspace\<close>, \<^verbatim>\<open>isalpha\<close>, \<^verbatim>\<open>isdigit\<close>) and the ASCII classes of the regular
  expressions of the source.
\<close>

definition py_isspace :: "char \<Rightarrow> bool" where
  "py_isspace c = (of_char c \<in> set [9, 10, 11, 12, 13, 28, 29, 30, 31, 32, 133, 160 :: nat])"

definition in_range :: "nat \<Rightarrow> nat \<Rightarrow> char \<Rightarrow> bool" where
  "in_range lo hi c = (lo \<le> of_char c \<and> (of_char c :: nat) \<le> hi)"

definition ascii_alpha :: "char \<Rightarrow> bool" where
  "ascii_alpha c = (in_range 65 90 c \<or> in_range 97 122 c)"

definition ascii_digit :: "char \<Rightarrow> bool" where
  "ascii_digit c = in_range 48 57 c"

definition py_isalpha_char :: "char \<Rightarrow> bool" where
  "py_isalpha_char c =
     (ascii_alpha c \<or> of_char c \<in> set [170, 181, 186 :: nat] \<or>
      in_range 192 214 c \<or> in_range 216 246 c \<or> in_range 248 255 c)"

definition py_isdigit_char :: "char \<Rightarrow> bool" where
  "py_isdigit_char c = (ascii_digit c \<or> of_char c \<in> set [178, 179, 185 :: nat])"

text \<open>\<^verbatim>\<open>s.isalpha()\<close>, \<^verbatim>\<open>s.isdigit()\<close>: every character, and at least one.\<close>

definition py_isalpha :: "string \<Rightarrow> bool" where
  "py_isalpha s = (s \<noteq> [] \<and> list_all py_isalpha_char s)"

definition py_isdigit :: "string \<Rightarrow> bool" where
  "py_isdigit s = (s \<noteq> [] \<and> list_all py_isdigit_char s)"

text \<open>\<^verbatim>\<open>s.strip()\<close>.\<close>

definition strip :: "string \<Rightarrow> string" where
  "strip s = rev (dropWhile py_isspace (rev (dropWhile py_isspace s)))"

text \<open>Removing every occurrence of some characters (chained \<^verbatim>\<open>replace(c, '')\<close>).\<close>

definition remove_chars :: "char list \<Rightarrow> string \<Rightarrow> string" where
  "remove_chars cs s = filter (\<lambda>c. c \<notin> set cs) s"

text \<open>
  \<^verbatim>\<open>s.title()\<close> for ASCII text: a letter that follows a letter is lower-cased, any
  other letter is upper-cased.  The source applies it to the field names only.
\<close>

definition upper_ascii :: "char \<Rightarrow> char" where
  "upper_ascii c =
     (case map_of (zip ''abcdefghijklmnopqrstuvwxyz'' ''ABCDEFGHIJKLMNOPQRSTUVWXYZ'') c of
        None \<Rightarrow> c | Some u \<Rightarrow> u)"

definition lower_ascii :: "char \<Rightarrow> char" where
  "lower_ascii c =
     (case map_of (zip ''ABCDEFGHIJKLMNOPQRSTUVWXYZ'' ''abcdefghijklmnopqrstuvwxyz'') c of
        None \<Rightarrow> c | Some l \<Rightarrow> l)"

fun title_from :: "bool \<Rightarrow> string \<Rightarrow> string" where
  "title_from prev [] = []"
| "title_from prev (c # cs) =
     (if ascii_alpha c
      then (if prev then lower_ascii c else upper_ascii c) # title_from True cs
      else c # title_from False cs)"

definition title :: "string \<Rightarrow> string" where
  "title s = title_from False s"

text \<open>
  \<^verbatim>\<open>re.match(r'^[a-zA-Z0-9._%+-]+@[a-zA-Z0-9.-]+\.[a-zA-Z]{2,}$', value)\<close> as a
  backtracking matcher.  The value matched is stripped, so it has no final newline
  before which \<^verbatim>\<open>$\<close> could match.
\<close>

definition email_local_char :: "char \<Rightarrow> bool" where
  "email_local_char c = (ascii_alpha c \<or> ascii_digit c \<or> c \<in> set ''._%+-'')"

definition email_domain_char :: "char \<Rightarrow> bool" where
  "email_domain_char c = (ascii_alpha c \<or> ascii_digit c \<or> c \<in> set ''.-'')"

definition match_tld :: "string \<Rightarrow> bool" where
  "match_tld s = (2 \<le> length s \<and> list_all ascii_alpha s)"

fun match_domain :: "string \<Rightarrow> bool" where
  "match_domain [] = False"
| "match_domain (c # cs) =
     (email_domain_char c \<and>
      (match_domain cs \<or> (case cs of [] \<Rightarrow> False | d # ds \<Rightarrow> d = CHR ''.'' \<and> match_tld ds)))"

fun match_email :: "string \<Rightarrow> bool" where
  "match_email [] = False"
| "match_email (c # cs) =
     (email_local_char c \<and>
      (match_email cs \<or> (case cs of [] \<Rightarrow> False | d # ds \<Rightarrow> d = CHR ''@'' \<and> match_domain ds)))"

section \<open>The booking sub-flow (\<^verbatim>\<open>src/workflows/booking_flow.py\<close>)\<close>

definition required_fields_order :: "string list" where
  "required_fields_order = [''name'', ''email'', ''phone'', ''pets'']"

text \<open>\<^verbatim>\<open>user_info.get(field)\<close> on the user-info dict.\<close>

definition info_get :: "(string \<times> pyval) list \<Rightarrow> string \<Rightarrow> pyval" where
  "info_get ui field = (case map_of ui field of None \<Rightarrow> PNone | Some v \<Rightarrow> v)"

definition next_missing_field :: "(string \<times> pyval) list \<Rightarrow> string option" where
  "next_missing_field ui = find (\<lambda>field. \<not> truthy (info_get ui field)) required_fields_order"

definition missing_fields :: "(string \<times> pyval) list \<Rightarrow> pyval" where
  "missing_fields ui =
     PList (map PStr (filter (\<lambda>f. \<not> truthy (info_get ui f)) required_fields_order))"

definition prompt_for_field :: "string \<Rightarrow> string" where
  "prompt_for_field field_name =
     (case map_of
        [(''name'', ''What's your full name?''),
         (''email'', ''What's your email address?''),
         (''phone'', ''What's your phone number?''),
         (''pets'', ''Do you have any pets? If yes, please specify.'')] field_name of
        None \<Rightarrow> ''Please provide the requested information.''
      | Some p \<Rightarrow> p)"

text \<open>
  \<^verbatim>\<open>_validate_user_field\<close>: the returned dict of errors has at most one entry.  A
  falsy value is reported as required; a truthy value that is not a string has no
  \<^verbatim>\<open>strip\<close> method.
\<close>

definition validate_name :: "string \<Rightarrow> (string \<times> string) list" where
  "validate_name v =
     (if length v < 2 then [(''name'', ''Name must be at least 2 characters long'')]
      else if \<not> py_isalpha (remove_chars [CHR '' '', CHR ''-'', CHR 0x27] v)
      then [(''name'', ''Name can only contain letters, spaces, hyphens, and apostrophes'')]
      else if length v > 100 then [(''name'', ''Name is too long (maximum 100 characters)'')]
      else [])"

definition validate_email :: "string \<Rightarrow> (string \<times> string) list" where
  "validate_email v =
     (if \<not> match_email v
      then [(''email'', ''Please enter a valid email address (e.g., john@example.com)'')]
      else if length v > 254 then [(''email'', ''Email address is too long'')]
      else [])"

definition clean_phone :: "string \<Rightarrow> string" where
  "clean_phone v = filter (\<lambda>c. \<not> (py_isspace c \<or> c \<in> set ''-().+'')) v"

definition validate_phone :: "string \<Rightarrow> (string \<times> string) list" where
  "validate_phone v =
     (let p = clean_phone v in
      if \<not> py_isdigit p
      then [(''phone'', ''Phone number can only contain digits and formatting characters'')]
      else if length p < 10 then [(''phone'', ''Phone number must be at least 10 digits'')]
      else if length p > 15 then [(''phone'', ''Phone number is too long'')]
      else if p \<in> set [''1234567890'', ''0000000000'', ''1111111111'']
      then [(''phone'', ''Please enter a valid phone number'')]
      else [])"

definition validate_pets :: "string \<Rightarrow> (string \<times> string) list" where
  "validate_pets v =
     (if length v > 200 then [(''pets'', ''Pet information is too long (maximum 200 characters)'')]
      else [])"

definition validate_stripped :: "string \<Rightarrow> string \<Rightarrow> (string \<times> string) list" where
  "validate_stripped field_name v =
     (if field_name = ''name'' then validate_name v
      else if field_name = ''email'' then validate_email v
      else if field_name = ''phone'' then validate_phone v
      else if field_name = ''pets'' then validate_pets v
      else [])"

fun validate_user_field :: "string \<Rightarrow> pyval \<Rightarrow> exn + (string \<times> string) list" where
  "validate_user_field field_name (PStr raw) =
     (if strip raw = [] then Inr [(field_name, title field_name @ '' is required'')]
      else Inr (validate_stripped field_name (strip raw)))"
| "validate_user_field field_name v =
     (if truthy v then Inl (AttributeError ''object has no attribute 'strip' '')
      else Inr [(field_name, title field_name @ '' is required'')])"

text \<open>
  The validation loop of \<^verbatim>\<open>_handle_info_collection\<close>: the fields present in the
  user-info dict are validated in the fixed order; the first one with errors ends the
  loop with its name and message.
\<close>

fun first_invalid ::
  "(string \<times> pyval) list \<Rightarrow> string list \<Rightarrow> exn + (string \<times> string) option" where
  "first_invalid ui [] = Inr None"
| "first_invalid ui (f # fs) =
     (case map_of ui f of
        None \<Rightarrow> first_invalid ui fs
      | Some v \<Rightarrow>
         (case validate_user_field f v of
            Inl e \<Rightarrow> Inl e
          | Inr errs \<Rightarrow>
             if errs = [] then first_invalid ui fs
             else (case map_of errs f of
                     None \<Rightarrow> Inl (KeyError f)
                   | Some msg \<Rightarrow> Inr (Some (f, msg)))))"

text \<open>
  \<^verbatim>\<open>_handle_booking_confirmation\<close>: \<open>now\<close> is \<^verbatim>\<open>datetime.now().isoformat()\<close>.
\<close>

definition handle_booking_confirmation ::
  "(pyval \<Rightarrow> string) \<Rightarrow> string \<Rightarrow> state \<Rightarrow> exn + delta" where
  "handle_booking_confirmation repr now s =
     (let property_id = get_none s ''property_id'';
          selected_slot = get_none s ''selected_slot'';
          user_info = get_or s ''user_info'' (PDict [])
      in
      bnd (py_get user_info ''name'') (\<lambda>name.
      bnd (py_get user_info ''email'') (\<lambda>email.
      bnd (py_get user_info ''phone'') (\<lambda>phone.
      bnd (py_get_or user_info ''pets'' (PStr ''Not specified'')) (\<lambda>pets.
        Inr [''current_step'' \<mapsto> PStr ''booking_complete'',
             ''response_message'' \<mapsto>
               PStr (''Great! Your appointment has been scheduled for '' @
                     py_str repr selected_slot @
                     ''. You'll receive a confirmation SMS shortly.''),
             ''appointment_details'' \<mapsto>
               PDict [(''property_id'', property_id), (''slot'', selected_slot),
                      (''user_name'', name), (''user_email'', email),
                      (''user_phone'', phone), (''user_pets'', pets),
                      (''created_at'', PStr now)],
             ''workflow_complete'' \<mapsto> PBool True,
             ''suggested_actions'' \<mapsto>
               PList [PStr ''booking_confirmed'', PStr ''new_search'']])))))"

definition validation_error_delta :: "string \<Rightarrow> string \<Rightarrow> delta" where
  "validation_error_delta field_name msg =
     [''current_step'' \<mapsto> PStr ''info_collection'',
      ''response_message'' \<mapsto>
        PStr (''Invalid '' @ field_name @ '': '' @ msg @ ''. Please try again:''),
      ''requires_user_info'' \<mapsto> PBool True,
      ''next_field'' \<mapsto> PStr field_name,
      ''info_prompt'' \<mapsto> PStr (prompt_for_field field_name),
      ''validation_error'' \<mapsto> PBool True,
      ''suggested_actions'' \<mapsto> PList [PStr ''provide_info'', PStr ''cancel_booking'']]"

definition prompt_delta :: "string \<Rightarrow> (string \<times> pyval) list \<Rightarrow> string \<Rightarrow> delta" where
  "prompt_delta message ui next_field =
     [''current_step'' \<mapsto> PStr ''info_collection'',
      ''response_message'' \<mapsto> PStr message,
      ''requires_user_info'' \<mapsto> PBool True,
      ''missing_fields'' \<mapsto> missing_fields ui,
      ''next_field'' \<mapsto> PStr next_field,
      ''info_prompt'' \<mapsto> PStr (prompt_for_field next_field),
      ''suggested_actions'' \<mapsto> PList [PStr ''provide_info'', PStr ''cancel_booking'']]"

text \<open>
  \<^verbatim>\<open>_handle_info_collection\<close>.  \<^verbatim>\<open>user_info = state.get('user_info', {}) or {}\<close>; a
  truthy user-info value that is not a dict makes the membership test, the subscript
  or the \<^verbatim>\<open>get\<close> call raise.
\<close>

fun non_dict_info_error :: "pyval \<Rightarrow> bool \<Rightarrow> exn" where
  "non_dict_info_error (PStr _) validating =
     (if validating then NotModelled else AttributeError ''object has no attribute 'get' '')"
| "non_dict_info_error (PList _) validating =
     (if validating then NotModelled else AttributeError ''object has no attribute 'get' '')"
| "non_dict_info_error _ validating =
     (if validating then TypeError ''argument is not iterable''
      else AttributeError ''object has no attribute 'get' '')"

definition handle_info_collection ::
  "(pyval \<Rightarrow> string) \<Rightarrow> string \<Rightarrow> state \<Rightarrow> exn + delta" where
  "handle_info_collection repr now s =
     (let validating = (get_none s ''action_type'' = PStr ''provide_info'') in
      case py_or (get_or s ''user_info'' (PDict [])) (PDict []) of
        PDict ui \<Rightarrow>
          bnd (if validating then first_invalid ui required_fields_order else Inr None)
            (\<lambda>invalid.
              case invalid of
                Some (field_name, msg) \<Rightarrow> Inr (validation_error_delta field_name msg)
              | None \<Rightarrow>
                 (case next_missing_field ui of
                    Some next_field \<Rightarrow>
                      Inr (prompt_delta (prompt_for_field next_field) ui next_field)
                  | None \<Rightarrow> handle_booking_confirmation repr now s))
      | other \<Rightarrow> Inl (non_dict_info_error other validating))"

text \<open>
  A field of the user-info dict passes validation: it is absent, or its value is
  validated without any error.
\<close>

definition supplied_ok :: "(string \<times> pyval) list \<Rightarrow> string \<Rightarrow> bool" where
  "supplied_ok ui field =
     (case map_of ui field of None \<Rightarrow> True | Some v \<Rightarrow> validate_user_field field v = Inr [])"

section \<open>The search node (\<^verbatim>\<open>src/workflows/nodes/property_search.py\<close>)\<close>

text \<open>
  What the search node obtains from its collaborators and from the text of the user
  query: the result of \<^verbatim>\<open>extract_search_criteria\<close>, the keyword tests on the query, the
  clarification prompt (\<^verbatim>\<open>query.lower()\<close> raises on a query that is no string),
  whether \<^verbatim>\<open>_enforce_texas_only\<close> redirects, the formatted search
  results (\<^verbatim>\<open>_format_property\<close> over \<^verbatim>\<open>search_with_criteria\<close>), the tailored suggestions
  and the suggested areas.  A collaborator call may raise.
\<close>

record search_env =
  se_extracted :: "exn + pyval"
  se_has_property_hints :: bool
  se_looks_non_property :: bool
  se_mentions_pet :: bool
  se_clarification_prompt :: "exn + string"
  se_texas_redirect :: bool
  se_formatted :: "exn + pyval list"
  se_suggestions :: "exn + pyval"
  se_suggested_areas :: "exn + pyval"

text \<open>\<^verbatim>\<open>v not in (None, "", [], {})\<close>.\<close>

definition not_blank :: "pyval \<Rightarrow> bool" where
  "not_blank v = (v \<notin> set [PNone, PStr [], PList [], PDict []])"

text \<open>\<^verbatim>\<open>d[k] = v\<close> on a dict held as an association list in insertion order.\<close>

fun dict_set :: "(string \<times> pyval) list \<Rightarrow> string \<Rightarrow> pyval \<Rightarrow> (string \<times> pyval) list" where
  "dict_set [] k v = [(k, v)]"
| "dict_set ((k', v') # kvs) k v =
     (if k' = k then (k, v) # kvs else (k', v') # dict_set kvs k v)"

text \<open>
  \<^verbatim>\<open>criteria = {**prior}\<close> followed by the loop that copies every non-blank extracted
  value.
\<close>

fun merge_criteria ::
  "(string \<times> pyval) list \<Rightarrow> (string \<times> pyval) list \<Rightarrow> (string \<times> pyval) list" where
  "merge_criteria criteria [] = criteria"
| "merge_criteria criteria ((k, v) # extracted) =
     merge_criteria (if not_blank v then dict_set criteria k v else criteria) extracted"

definition crit_get :: "(string \<times> pyval) list \<Rightarrow> string \<Rightarrow> pyval" where
  "crit_get c k = (case map_of c k of None \<Rightarrow> PNone | Some v \<Rightarrow> v)"

definition has_budget :: "(string \<times> pyval) list \<Rightarrow> bool" where
  "has_budget c = list_ex (\<lambda>k. not_blank (crit_get c k)) [''rent_min'', ''rent_max'', ''rent_exact'']"

definition strong_filter_keys :: "string list" where
  "strong_filter_keys =
     [''address'', ''bedrooms'', ''rent_min'', ''rent_max'', ''rent_exact'', ''pets'',
      ''available_date'']"

definition all_criteria_names :: pyval where
  "all_criteria_names =
     PList [PStr ''location'', PStr ''budget'', PStr ''bedrooms'', PStr ''pets'',
            PStr ''available date'']"

definition need_criteria_context :: "string \<Rightarrow> pyval" where
  "need_criteria_context prompt =
     PDict [(''type'', PStr ''need_criteria''),
            (''details'', PDict [(''missing'', all_criteria_names),
                                 (''clarify_prompt'', PStr prompt)])]"

definition non_property_context :: pyval where
  "non_property_context =
     PDict [(''type'', PStr ''general_failure''),
            (''details'',
             PDict [(''reason'', PStr ''non_property''),
                    (''message'', PStr ''I can help with Texas home rentals: city, budget, bedrooms, pets, move-in date.'')])]"

definition no_properties_context :: "(string \<times> pyval) list \<Rightarrow> pyval" where
  "no_properties_context details = PDict [(''type'', PStr ''no_properties''), (''details'', PDict details)]"

text \<open>
  \<^verbatim>\<open>prompt_by_priority\<close> in the branch without any meaningful criterion.
\<close>

definition prompt_by_priority :: "(string \<times> pyval) list \<Rightarrow> bool \<Rightarrow> string option" where
  "prompt_by_priority criteria pets_hint =
     (if \<not> truthy (crit_get criteria ''address'')
      then Some ''Which city or area are you looking for? I have properties in Austin, Dallas, Houston, San Antonio, and Fort Worth.''
      else if \<not> truthy (crit_get criteria ''bedrooms'') then Some ''How many bedrooms do you need?''
      else if \<not> has_budget criteria then Some ''What's your monthly budget range?''
      else if \<not> truthy (crit_get criteria ''pets'') \<and> pets_hint
      then Some ''Do you have any pets I should know about?''
      else None)"

text \<open>
  \<^verbatim>\<open>[p for p in formatted_props if not p.get("_no_exact_match")]\<close> and the first
  suggestion message among the special objects.
\<close>

fun clean_props :: "pyval list \<Rightarrow> exn + pyval list" where
  "clean_props [] = Inr []"
| "clean_props (p # ps) =
     bnd (py_get p ''_no_exact_match'') (\<lambda>flag.
     bnd (clean_props ps) (\<lambda>rest. Inr (if truthy flag then rest else p # rest)))"

fun special_message :: "pyval list \<Rightarrow> exn + pyval" where
  "special_message [] = Inr PNone"
| "special_message (p # ps) =
     bnd (py_get p ''_no_exact_match'') (\<lambda>flag.
       if truthy flag then py_get p ''_suggestion_message'' else special_message ps)"

text \<open>
  The body of \<^verbatim>\<open>PropertySearchNode.search_properties\<close>.  The function changes its
  argument with \<^verbatim>\<open>state.update(...)\<close> and \<^verbatim>\<open>state[...] = ...\<close> and returns that same
  dict on every path; the model returns the argument as the call leaves it together with
  the value returned or the exception raised.
\<close>

text \<open>\<^verbatim>\<open>state.update(upd); return state\<close>.\<close>

definition update_and_return :: "state \<Rightarrow> delta \<Rightarrow> state \<times> (exn + delta)" where
  "update_and_return s upd = (merge s upd, Inr (merge s upd))"

text \<open>A value used as a mapping (\<^verbatim>\<open>{**x}\<close>, \<^verbatim>\<open>x.items()\<close>).\<close>

fun as_mapping :: "string \<Rightarrow> pyval \<Rightarrow> exn + (string \<times> pyval) list" where
  "as_mapping msg (PDict d) = Inr d"
| "as_mapping msg _ = Inl (TypeError msg)"

fun items :: "pyval \<Rightarrow> exn + (string \<times> pyval) list" where
  "items (PDict d) = Inr d"
| "items _ = Inl (AttributeError ''object has no attribute 'items' '')"

text \<open>Lines 141 to 187: the search itself and the fallback context of its result.\<close>

definition search_with_criteria ::
  "search_env \<Rightarrow> state \<Rightarrow> pyval \<Rightarrow> (string \<times> pyval) list \<Rightarrow> pyval \<Rightarrow>
   state \<times> (exn + delta)" where
  "search_with_criteria env s user_query criteria original_location_input =
     (case bnd (se_formatted env) (\<lambda>formatted.
             bnd (clean_props formatted) (\<lambda>clean. Inr (formatted, clean))) of
        Inl e \<Rightarrow> (s, Inl e)
      | Inr (formatted, clean) \<Rightarrow>
        (let s1 = merge s [''properties'' \<mapsto> PList clean, ''search_filters'' \<mapsto> PDict criteria]
         in
         if clean = []
         then
           (case bnd (se_suggestions env) (\<lambda>suggestions.
                   bnd (se_suggested_areas env) (\<lambda>areas. Inr (suggestions, areas))) of
              Inl e \<Rightarrow> (s1, Inl e)
            | Inr (suggestions, areas) \<Rightarrow>
                update_and_return s1
                  [''fallback_context'' \<mapsto>
                     no_properties_context
                       [(''query'', user_query), (''filters'', PDict criteria),
                        (''suggested_areas'', areas),
                        (''original_location'', original_location_input),
                        (''suggestions'', suggestions)]])
         else
           (case special_message formatted of
              Inl e \<Rightarrow> (s1, Inl e)
            | Inr special_msg \<Rightarrow>
                if truthy special_msg
                then
                  (case se_suggested_areas env of
                     Inl e \<Rightarrow> (s1, Inl e)
                   | Inr areas \<Rightarrow>
                       update_and_return s1
                         [''fallback_context'' \<mapsto>
                            no_properties_context
                              [(''query'', user_query), (''filters'', PDict criteria),
                               (''suggested_areas'', areas),
                               (''original_location'', original_location_input),
                               (''suggestions'', PDict [(''budget'', special_msg)])]])
                else (s1, Inr s1))))"

text \<open>Lines 46 to 139: the three early returns and the counter-question.\<close>

definition search_checked ::
  "search_env \<Rightarrow> state \<Rightarrow> pyval \<Rightarrow> (string \<times> pyval) list \<Rightarrow> (string \<times> pyval) list \<Rightarrow>
   state \<times> (exn + delta)" where
  "search_checked env s user_query criteria ext =
     (if filter (\<lambda>(k, v). not_blank v) ext = [] \<and> \<not> se_has_property_hints env
      then
        (case se_clarification_prompt env of
           Inl e \<Rightarrow> (s, Inl e)
         | Inr prompt \<Rightarrow>
             update_and_return s
               [''properties'' \<mapsto> PList [], ''search_filters'' \<mapsto> PDict [],
                ''fallback_context'' \<mapsto> need_criteria_context prompt])
      else if se_looks_non_property env \<and>
              \<not> list_ex (\<lambda>k. truthy (crit_get criteria k)) strong_filter_keys
      then
        update_and_return s
          [''properties'' \<mapsto> PList [], ''search_filters'' \<mapsto> PDict criteria,
           ''fallback_context'' \<mapsto> non_property_context]
      else
        (let original_location_input = py_or (crit_get ext ''address'') (PStr []) in
         if se_texas_redirect env
         then
           update_and_return s
             [''properties'' \<mapsto> PList [],
              ''search_filters'' \<mapsto> PDict (dict_set criteria ''address'' PNone),
              ''fallback_context'' \<mapsto>
                no_properties_context
                  [(''query'', user_query),
                   (''filters'', PDict (dict_set criteria ''address'' PNone)),
                   (''suggested_areas'',
                    PList [PStr ''Houston'', PStr ''Dallas'', PStr ''Austin'',
                           PStr ''San Antonio'']),
                   (''original_location'', original_location_input)]]
         else if filter (\<lambda>(k, v). not_blank v) criteria = []
         then
           (case (case prompt_by_priority criteria
                         (se_mentions_pet env \<or> truthy (crit_get criteria ''address'') \<or>
                          truthy (crit_get criteria ''bedrooms'') \<or> has_budget criteria) of
                    Some p \<Rightarrow> Inr p
                  | None \<Rightarrow> se_clarification_prompt env) of
              Inl e \<Rightarrow> (s, Inl e)
            | Inr prompt \<Rightarrow>
                update_and_return s
                  [''properties'' \<mapsto> PList [], ''search_filters'' \<mapsto> PDict criteria,
                   ''fallback_context'' \<mapsto> need_criteria_context prompt])
         else search_with_criteria env s user_query criteria original_location_input))"

text \<open>Lines 21 to 32: the extraction and the merge with the criteria of earlier turns.\<close>

definition search_properties_run :: "search_env \<Rightarrow> state \<Rightarrow> state \<times> (exn + delta)" where
  "search_properties_run env s =
     (case bnd (se_extracted env) (\<lambda>extracted.
             bnd (as_mapping ''object is not a mapping''
                    (py_or (get_none s ''search_filters'') (PDict []))) (\<lambda>prior.
             bnd (items (py_or extracted (PDict []))) (\<lambda>ext. Inr (prior, ext)))) of
        Inl e \<Rightarrow> (s, Inl e)
      | Inr (prior, ext) \<Rightarrow>
          search_checked env s (get_or s ''user_query'' (PStr [])) (merge_criteria prior ext) ext)"

definition search_properties_body :: "search_env \<Rightarrow> state \<Rightarrow> config \<Rightarrow> exn + delta" where
  "search_properties_body env s cfg = snd (search_properties_run env s)"

text \<open>
  The search node as the graph calls it (\<^verbatim>\<open>WorkflowNodes.search_properties\<close>).
\<close>

definition search_properties :: "search_env \<Rightarrow> node_fn" where
  "search_properties env =
     track_node_execution ''search_properties''
       (error_handler
          (track_workflow_execution ''search_properties''
             (untraced (search_properties_body env))))"

text \<open>The value a node call returned under a key, if it returned a dict.\<close>

definition returned_key :: "exn + delta \<Rightarrow> string \<Rightarrow> pyval option" where
  "returned_key r k = (case r of Inl e \<Rightarrow> None | Inr d \<Rightarrow> d k)"

text \<open>A first search turn: an empty result list in the state, one listing found.\<close>

definition example_listing :: pyval where
  "example_listing =
     PDict [(''id'', PStr ''p1''), (''address'', PStr ''12 Elm St, Austin''),
            (''bedrooms'', PInt 2), (''available'', PStr ''True''), (''pets'', PStr ''cats'')]"

definition example_search_state :: state where
  "example_search_state =
     [''user_query'' \<mapsto> PStr ''2 bed in Austin'', ''user_id'' \<mapsto> PStr ''u1'',
      ''intent'' \<mapsto> PStr ''property_search'', ''properties'' \<mapsto> PList [],
      ''reflection_loops'' \<mapsto> PInt 0]"

definition example_search_env :: search_env where
  "example_search_env =
     \<lparr>se_extracted = Inr (PDict [(''address'', PStr ''Austin''), (''bedrooms'', PInt 2)]),
      se_has_property_hints = True, se_looks_non_property = False, se_mentions_pet = False,
      se_clarification_prompt = Inr ''How many bedrooms do you need: 1, 2, 3, or 4+?'',
      se_texas_redirect = False, se_formatted = Inr [example_listing],
      se_suggestions = Inr (PDict []), se_suggested_areas = Inr (PList [])\<rparr>"

text \<open>A call that, where it returns, returns the dict it was given.\<close>

definition returns_arg :: "state \<times> (exn + delta) \<Rightarrow> bool" where
  "returns_arg r = (case snd r of Inl e \<Rightarrow> True | Inr d \<Rightarrow> d = fst r)"


section \<open>The search branch of the graph (\<^verbatim>\<open>src/workflows/graph.py\<close>)\<close>

text \<open>
  \<^verbatim>\<open>create_property_workflow\<close> wires \<^verbatim>\<open>search_properties\<close> to \<^verbatim>\<open>route_after_search\<close>
  with the targets \<^verbatim>\<open>reflect\<close> and \<^verbatim>\<open>generate_response\<close>, and \<^verbatim>\<open>reflect\<close> to
  \<^verbatim>\<open>route_after_reflect\<close> with the targets \<^verbatim>\<open>search_properties\<close> and
  \<^verbatim>\<open>generate_response\<close>.  The compiled graph calls a node on the state, merges the dict
  the node returns into the state, calls the router of the node's conditional edge on
  the merged state and continues with the node the path map gives for the router's
  answer; an answer outside the path map, like an exception of a node or a router, ends
  the run with that exception.

  One round of the branch starts with a call of the search node and ends with an
  exception, with the state that enters \<^verbatim>\<open>generate_response\<close>, or with the state that
  enters the search node again.  With the end of the round come the states the round
  went through.
\<close>

datatype round_end = Raised exn | Finish state | Loop state

definition reflect_round :: "config \<Rightarrow> state \<Rightarrow> state list \<times> round_end" where
  "reflect_round cfg s =
     (case snd (reflect s cfg) of
        Inl e \<Rightarrow> ([], Raised e)
      | Inr d \<Rightarrow>
          (case route_after_reflect (merge s d) of
             Inl e \<Rightarrow> ([merge s d], Raised e)
           | Inr r \<Rightarrow>
               if r = ''search_properties'' then ([merge s d], Loop (merge s d))
               else if r = ''generate_response'' then ([merge s d], Finish (merge s d))
               else ([merge s d], Raised (KeyError r))))"

definition search_round :: "search_env \<Rightarrow> config \<Rightarrow> state \<Rightarrow> state list \<times> round_end" where
  "search_round env cfg s =
     (case snd (search_properties env s cfg) of
        Inl e \<Rightarrow> ([], Raised e)
      | Inr d \<Rightarrow>
          (case route_after_search (merge s d) of
             Inl e \<Rightarrow> ([merge s d], Raised e)
           | Inr r \<Rightarrow>
               if r = ''reflect''
               then (merge s d # fst (reflect_round cfg (merge s d)),
                     snd (reflect_round cfg (merge s d)))
               else if r = ''generate_response'' then ([merge s d], Finish (merge s d))
               else ([merge s d], Raised (KeyError r))))"

text \<open>
  The branch from the \<open>n\<close>-th call of the search node on: the states gone through, the
  number of calls of the search node when the branch ends, and the exception or the
  state that enters \<^verbatim>\<open>generate_response\<close>.  The collaborators may answer differently
  at every call (\<open>envs n\<close> at the \<open>n\<close>-th).  \<open>None\<close> is a run that has not left the
  branch after \<open>fuel\<close> rounds.
\<close>

fun search_branch ::
  "nat \<Rightarrow> (nat \<Rightarrow> search_env) \<Rightarrow> config \<Rightarrow> nat \<Rightarrow> state \<Rightarrow>
   (state list \<times> nat \<times> (exn + state)) option" where
  "search_branch 0 envs cfg n s = None"
| "search_branch (Suc fuel) envs cfg n s =
     (case search_round (envs n) cfg s of
        (tr, Raised e) \<Rightarrow> Some (tr, Suc n, Inl e)
      | (tr, Finish s') \<Rightarrow> Some (tr, Suc n, Inr s')
      | (tr, Loop s') \<Rightarrow>
          map_option (\<lambda>(tr', m, res). (tr @ tr', m, res))
            (search_branch fuel envs cfg (Suc n) s'))"

text \<open>A reflection loop count of at most \<open>L\<close>.\<close>

fun count_within :: "int \<Rightarrow> pyval option \<Rightarrow> bool" where
  "count_within L (Some (PInt c)) = (c \<le> L)"
| "count_within L _ = False"

definition loops_within :: "int \<Rightarrow> state \<Rightarrow> bool" where
  "loops_within L s = count_within L (s ''reflection_loops'')"

text \<open>
  A run that leaves the branch, in which every state has a reflection loop count of at
  most \<open>L\<close>, and that has called the search node at most \<open>L + 1\<close> times.
\<close>

definition run_within :: "int \<Rightarrow> (state list \<times> nat \<times> (exn + state)) option \<Rightarrow> bool" where
  "run_within L r =
     (case r of
        None \<Rightarrow> False
      | Some (tr, n, res) \<Rightarrow> list_all (loops_within L) tr \<and> int n \<le> L + 1)"

fun absent_or_list :: "pyval option \<Rightarrow> bool" where
  "absent_or_list None = True"
| "absent_or_list (Some (PList _)) = True"
| "absent_or_list (Some _) = False"

text \<open>
  The state between two rounds: a count \<open>c\<close> of at most \<open>L\<close>, a result list and a
  fallback context of the types \<^verbatim>\<open>WorkflowState\<close> gives them.
\<close>

definition loop_inv :: "int \<Rightarrow> int \<Rightarrow> state \<Rightarrow> bool" where
  "loop_inv L c s =
     (s ''reflection_loops'' = Some (PInt c) \<and> c \<le> L \<and>
      absent_or_list (s ''properties'') \<and> absent_or_dict (s ''fallback_context''))"

text \<open>
  The state \<^verbatim>\<open>chat_endpoint\<close> builds for a turn (the fields the branch reads), and a
  search that finds nothing.
\<close>

definition turn_state :: state where
  "turn_state =
     [''user_query'' \<mapsto> PStr ''2 bed in Austin'', ''user_id'' \<mapsto> PStr ''u1'',
      ''intent'' \<mapsto> PStr ''property_search'', ''properties'' \<mapsto> PList [],
      ''search_filters'' \<mapsto> PDict [], ''reflection_notes'' \<mapsto> PNone,
      ''reflection_loops'' \<mapsto> PInt 0, ''available_slots'' \<mapsto> PList [],
      ''response_message'' \<mapsto> PStr [], ''error'' \<mapsto> PNone, ''next_step'' \<mapsto> PNone]"

definition nothing_found_env :: search_env where
  "nothing_found_env =
     \<lparr>se_extracted = Inr (PDict [(''address'', PStr ''Austin''), (''bedrooms'', PInt 2)]),
      se_has_property_hints = True, se_looks_non_property = False, se_mentions_pet = False,
      se_clarification_prompt = Inr ''How many bedrooms do you need: 1, 2, 3, or 4+?'',
      se_texas_redirect = False, se_formatted = Inr [],
      se_suggestions = Inr (PDict [(''bedrooms'', PStr ''No 2-bed listings match.'')]),
      se_suggested_areas = Inr (PList [PStr ''Dallas''])\<rparr>"

text \<open>
  What a round that starts with the count \<open>c\<close> may end with: if it enters the search
  node again, the count was below \<open>L\<close> and is now \<open>c + 1\<close>.
\<close>

fun round_ok :: "int \<Rightarrow> int \<Rightarrow> round_end \<Rightarrow> bool" where
  "round_ok L c (Loop s') = (c < L \<and> loop_inv L (c + 1) s')"
| "round_ok L c (Finish s') = True"
| "round_ok L c (Raised e) = True"

definition branch_ok ::
  "int \<Rightarrow> int \<Rightarrow> (state list \<times> nat \<times> (exn + state)) option \<Rightarrow> bool" where
  "branch_ok L b r =
     (case r of
        None \<Rightarrow> False
      | Some (tr, m, res) \<Rightarrow> list_all (loops_within L) tr \<and> int m \<le> b)"


section \<open>The remaining booking handlers (\<^verbatim>\<open>src/workflows/booking_flow.py\<close>)\<close>

text \<open>
  What the booking handlers obtain from outside: the listings of
  \<^verbatim>\<open>PropertyService().get_all_properties()\<close>, the result of
  \<^verbatim>\<open>property_details_service.get_property_details\<close> and the slots of
  \<^verbatim>\<open>_generate_available_slots\<close>, which depend on the clock.
\<close>

record booking_env =
  be_all_properties :: "exn + pyval list"
  be_details :: "exn + pyval"
  be_slots :: pyval

definition handle_cancel :: "state \<Rightarrow> delta" where
  "handle_cancel s =
     [''current_step'' \<mapsto> PStr ''property_search'',
      ''response_message'' \<mapsto> PStr ''Booking canceled. You can start again when ready.'',
      ''available_slots'' \<mapsto> PList [],
      ''requires_user_info'' \<mapsto> PBool False,
      ''next_field'' \<mapsto> PNone,
      ''missing_fields'' \<mapsto> PList [],
      ''info_prompt'' \<mapsto> PNone,
      ''appointment_details'' \<mapsto> PNone,
      ''workflow_complete'' \<mapsto> PBool False,
      ''suggested_actions'' \<mapsto> PList [PStr ''search_properties'', PStr ''book_schedule'']]"

definition handle_property_search :: "state \<Rightarrow> delta" where
  "handle_property_search s =
     [''current_step'' \<mapsto> PStr ''property_search'',
      ''response_message'' \<mapsto>
        PStr (''Here are the available properties. Click '' @ [CHR 0x22] @ ''Inquire'' @
              [CHR 0x22] @ '' for details or '' @ [CHR 0x22] @ ''Book Schedule'' @ [CHR 0x22] @
              '' to view available times.''),
      ''suggested_actions'' \<mapsto> PList [PStr ''inquire'', PStr ''book_schedule'']]"

text \<open>
  The two loops of \<^verbatim>\<open>_handle_property_inquiry\<close> that look for the property: by
  \<^verbatim>\<open>prop.get('id') == property_id\<close> in the listings of the state, by
  \<^verbatim>\<open>str(prop.get('id')) == str(property_id)\<close> in the listings of the service.
\<close>

fun find_prop :: "pyval \<Rightarrow> pyval list \<Rightarrow> exn + pyval option" where
  "find_prop pid [] = Inr None"
| "find_prop pid (p # ps) =
     bnd (py_get p ''id'') (\<lambda>i. if py_eq i pid then Inr (Some p) else find_prop pid ps)"

fun find_prop_str :: "(pyval \<Rightarrow> string) \<Rightarrow> pyval \<Rightarrow> pyval list \<Rightarrow> exn + pyval option" where
  "find_prop_str repr pid [] = Inr None"
| "find_prop_str repr pid (p # ps) =
     bnd (py_get p ''id'') (\<lambda>i.
       if py_str repr i = py_str repr pid then Inr (Some p) else find_prop_str repr pid ps)"

definition property_not_found :: delta where
  "property_not_found =
     [''response_message'' \<mapsto> PStr ''Property not found. Please try again.'',
      ''current_step'' \<mapsto> PStr ''property_search'']"

definition handle_property_inquiry ::
  "(pyval \<Rightarrow> string) \<Rightarrow> booking_env \<Rightarrow> state \<Rightarrow> exn + delta" where
  "handle_property_inquiry repr env s =
     (let property_id = get_none s ''property_id'';
          properties = get_or s ''properties'' (PList [])
      in
      bnd (if truthy properties
           then (case properties of
                   PList ps \<Rightarrow> find_prop property_id ps
                 | PStr cs \<Rightarrow> Inl (AttributeError ''object has no attribute 'get' '')
                 | PDict kvs \<Rightarrow> Inl (AttributeError ''object has no attribute 'get' '')
                 | other \<Rightarrow> Inl (TypeError ''object is not iterable''))
           else (case bnd (be_all_properties env) (find_prop_str repr property_id) of
                   Inr selected \<Rightarrow> Inr selected
                 | Inl e \<Rightarrow> if is_Exception e then Inr None else Inl e))
        (\<lambda>selected.
           case selected of
             None \<Rightarrow> Inr property_not_found
           | Some p \<Rightarrow>
               if \<not> truthy p then Inr property_not_found
               else
                 bnd (be_details env) (\<lambda>details.
                 bnd (py_get_or p ''address'' (PStr ''this property'')) (\<lambda>address.
                   Inr [''current_step'' \<mapsto> PStr ''property_details'',
                        ''response_message'' \<mapsto>
                          PStr (''Here are the details for '' @ py_str repr address @ '':''),
                        ''property_details'' \<mapsto> details,
                        ''suggested_actions'' \<mapsto>
                          PList [PStr ''book_schedule'', PStr ''back_to_search'']]))))"

definition handle_booking_request :: "booking_env \<Rightarrow> state \<Rightarrow> delta" where
  "handle_booking_request env s =
     (if \<not> truthy (get_none s ''property_id'')
      then [''response_message'' \<mapsto> PStr ''Please select a property first.'',
            ''current_step'' \<mapsto> PStr ''property_search'']
      else [''current_step'' \<mapsto> PStr ''slot_selection'',
            ''response_message'' \<mapsto>
              PStr ''Please select an available time slot for your property visit:'',
            ''available_slots'' \<mapsto> be_slots env,
            ''suggested_actions'' \<mapsto> PList [PStr ''select_slot'', PStr ''cancel_booking'']])"

definition handle_slot_selection ::
  "(pyval \<Rightarrow> string) \<Rightarrow> string \<Rightarrow> state \<Rightarrow> exn + delta" where
  "handle_slot_selection repr now s =
     (if \<not> truthy (get_none s ''selected_slot'')
      then Inr [''response_message'' \<mapsto> PStr ''Please select a time slot.'',
                ''current_step'' \<mapsto> PStr ''slot_selection'']
      else
        (case py_or (get_or s ''user_info'' (PDict [])) (PDict []) of
           PDict ui \<Rightarrow>
             (case next_missing_field ui of
                Some next_field \<Rightarrow>
                  Inr (prompt_delta
                         ''To complete your booking, please provide the following information:''
                         ui next_field)
              | None \<Rightarrow> handle_booking_confirmation repr now s)
         | other \<Rightarrow> Inl (AttributeError ''object has no attribute 'get' '')))"

text \<open>
  \<^verbatim>\<open>process_user_action\<close>: the action type selects the handler; without one of the five
  action types the current step does, through \<^verbatim>\<open>self.flow_steps\<close>.
\<close>

definition process_user_action ::
  "(pyval \<Rightarrow> string) \<Rightarrow> string \<Rightarrow> booking_env \<Rightarrow> state \<Rightarrow> exn + delta" where
  "process_user_action repr now env s =
     (let action_type = get_none s ''action_type'';
          current_step = get_or s ''current_step'' (PStr ''property_search'')
      in
      if action_type = PStr ''inquire'' then handle_property_inquiry repr env s
      else if action_type = PStr ''book_schedule'' then Inr (handle_booking_request env s)
      else if action_type = PStr ''select_slot'' then handle_slot_selection repr now s
      else if action_type = PStr ''provide_info'' then handle_info_collection repr now s
      else if action_type = PStr ''cancel_booking'' then Inr (handle_cancel s)
      else if \<not> hashable current_step then Inl (TypeError ''unhashable type'')
      else if current_step = PStr ''property_inquiry'' then handle_property_inquiry repr env s
      else if current_step = PStr ''slot_selection'' then handle_slot_selection repr now s
      else if current_step = PStr ''info_collection'' then handle_info_collection repr now s
      else if current_step = PStr ''booking_confirmation''
      then handle_booking_confirmation repr now s
      else Inr (handle_property_search s))"

section \<open>The chat endpoint (\<^verbatim>\<open>src/chatbot/langgraph_api.py\<close>)\<close>

text \<open>
  The fields \<^verbatim>\<open>chat_endpoint\<close> reads from the request.  With the request come the
  messages of \<^verbatim>\<open>chat_history.get_last_messages\<close> and the filters of
  \<^verbatim>\<open>search_session.get_filters\<close>.
\<close>

record chat_request =
  rq_query :: pyval
  rq_user_id :: pyval
  rq_conversation_history :: pyval
  rq_action_type :: pyval
  rq_property_id :: pyval
  rq_selected_slot :: pyval
  rq_user_info :: pyval

definition initial_state :: "chat_request \<Rightarrow> pyval \<Rightarrow> pyval \<Rightarrow> state" where
  "initial_state request recent_messages prior_filters =
     [''user_query'' \<mapsto> rq_query request,
      ''user_id'' \<mapsto> rq_user_id request,
      ''conversation_history'' \<mapsto> rq_conversation_history request,
      ''messages'' \<mapsto> recent_messages,
      ''action_type'' \<mapsto> rq_action_type request,
      ''property_id'' \<mapsto> rq_property_id request,
      ''selected_slot'' \<mapsto> rq_selected_slot request,
      ''user_info'' \<mapsto> py_or (rq_user_info request) (PDict []),
      ''intent'' \<mapsto> PNone,
      ''entities'' \<mapsto> PDict [],
      ''confidence'' \<mapsto> PNone,
      ''properties'' \<mapsto> PList [],
      ''search_filters'' \<mapsto> py_or prior_filters (PDict []),
      ''search_query'' \<mapsto> PNone,
      ''queries'' \<mapsto> PList [],
      ''reflection_notes'' \<mapsto> PNone,
      ''needs_more_research'' \<mapsto> PNone,
      ''reflection_loops'' \<mapsto> PInt 0,
      ''available_slots'' \<mapsto> PList [],
      ''appointment_details'' \<mapsto> PNone,
      ''user_name'' \<mapsto> PNone,
      ''user_email'' \<mapsto> PNone,
      ''user_phone'' \<mapsto> PNone,
      ''user_pets'' \<mapsto> PNone,
      ''calendar_event_id'' \<mapsto> PNone,
      ''sms_sent'' \<mapsto> PNone,
      ''sms_result'' \<mapsto> PNone,
      ''response_message'' \<mapsto> PStr [],
      ''suggested_actions'' \<mapsto> PList [],
      ''current_step'' \<mapsto> PStr ''property_search'',
      ''requires_user_info'' \<mapsto> PBool False,
      ''property_details'' \<mapsto> PNone,
      ''error'' \<mapsto> PNone,
      ''next_step'' \<mapsto> PNone,
      ''workflow_complete'' \<mapsto> PBool False,
      ''next_field'' \<mapsto> PNone,
      ''missing_fields'' \<mapsto> PList [],
      ''info_prompt'' \<mapsto> PNone]"

definition booking_action_types :: "pyval list" where
  "booking_action_types =
     [PStr ''inquire'', PStr ''book_schedule'', PStr ''select_slot'', PStr ''provide_info'',
      PStr ''cancel_booking'']"

definition is_booking_action :: "pyval \<Rightarrow> bool" where
  "is_booking_action a = (a \<in> set booking_action_types)"

text \<open>
  What \<^verbatim>\<open>await asyncio.wait_for(workflow.ainvoke(...), timeout=...)\<close> does: it gives
  the final state of the graph, raises \<^verbatim>\<open>asyncio.TimeoutError\<close>, or raises something
  else.
\<close>

datatype workflow_outcome = Completed state | TimedOut | Failed exn

definition timeout_updates :: delta where
  "timeout_updates =
     [''response_message'' \<mapsto>
        PStr ''I apologize, but the request is taking longer than expected. Please try again with a simpler query or contact support if the issue persists.'',
      ''suggested_actions'' \<mapsto>
        PList [PStr ''Try a simpler query'', PStr ''Contact support'', PStr ''Ask for help''],
      ''error'' \<mapsto> PStr ''workflow_timeout'',
      ''workflow_complete'' \<mapsto> PBool True]"

definition failure_updates :: "exn \<Rightarrow> delta" where
  "failure_updates e =
     [''response_message'' \<mapsto>
        PStr ''I encountered an error while processing your request. Please try again or contact support.'',
      ''suggested_actions'' \<mapsto>
        PList [PStr ''Try again'', PStr ''Contact support'', PStr ''Ask for help''],
      ''error'' \<mapsto> PStr (str_exn e),
      ''workflow_complete'' \<mapsto> PBool True]"

text \<open>
  The post-booking block runs inside \<^verbatim>\<open>try ... except Exception\<close> and assigns at most
  \<^verbatim>\<open>calendar_event_id\<close>, then \<^verbatim>\<open>sms_sent\<close> and \<^verbatim>\<open>sms_result\<close> together: the values
  it got to assign are given.
\<close>

record post_booking =
  pb_event_id :: "pyval option"
  pb_sms :: "(pyval \<times> pyval) option"

definition post_booking_updates :: "post_booking \<Rightarrow> delta" where
  "post_booking_updates pb =
     (\<lambda>k. if k = ''calendar_event_id'' then pb_event_id pb
          else if k = ''sms_sent'' then map_option fst (pb_sms pb)
          else if k = ''sms_result'' then map_option snd (pb_sms pb)
          else None)"

text \<open>
  \<^verbatim>\<open>final_state\<close> as \<^verbatim>\<open>chat_endpoint\<close> has it after the post-booking block, with the
  booking updates of the turn, if any.
\<close>

definition final_state ::
  "(pyval \<Rightarrow> string) \<Rightarrow> string \<Rightarrow> booking_env \<Rightarrow> post_booking \<Rightarrow> workflow_outcome \<Rightarrow>
   chat_request \<Rightarrow> pyval \<Rightarrow> pyval \<Rightarrow> exn + state \<times> delta option" where
  "final_state repr now env pb outcome request recent_messages prior_filters =
     (let initial = initial_state request recent_messages prior_filters in
      bnd (if is_booking_action (rq_action_type request)
           then bnd (process_user_action repr now env initial) (\<lambda>booking_updates.
                  Inr (merge initial booking_updates, Some booking_updates))
           else (case outcome of
                   Completed fs \<Rightarrow> Inr (fs, None)
                 | TimedOut \<Rightarrow> Inr (merge initial timeout_updates, None)
                 | Failed e \<Rightarrow>
                     if is_Exception e then Inr (merge initial (failure_updates e), None)
                     else Inl e))
        (\<lambda>(fs, booking_updates).
           Inr (if truthy (get_none fs ''workflow_complete'') \<and>
                   truthy (get_none fs ''appointment_details'')
                then merge fs (post_booking_updates pb)
                else fs,
                booking_updates)))"

text \<open>
  The response text and the suggested actions sent to the caller:
  \<^verbatim>\<open>final_state.get(k) or (booking_updates.get(k) if booking_updates else ...) or ...\<close>.
\<close>

definition updates_get :: "delta option \<Rightarrow> string \<Rightarrow> pyval \<Rightarrow> pyval" where
  "updates_get booking_updates k d =
     (case booking_updates of
        None \<Rightarrow> d
      | Some u \<Rightarrow> if u = Map.empty then d else get_none u k)"

definition response_text :: "state \<Rightarrow> delta option \<Rightarrow> pyval" where
  "response_text fs booking_updates =
     py_or (py_or (get_none fs ''response_message'')
                  (updates_get booking_updates ''response_message'' PNone))
           (PStr ''I'm here to help!'')"

definition response_actions :: "state \<Rightarrow> delta option \<Rightarrow> pyval" where
  "response_actions fs booking_updates =
     py_or (py_or (get_none fs ''suggested_actions'')
                  (updates_get booking_updates ''suggested_actions'' (PList [])))
           (PList [])"

text \<open>
  A turn ends with the final state and what is sent from it, with the
  \<^verbatim>\<open>HTTPException(status_code=500, detail=str(e))\<close> the outer handler makes of an
  exception \<open>e\<close>, or with an exception the handler does not catch.  Before the response
  is built, \<^verbatim>\<open>len(final_state.get("properties", []))\<close> is evaluated.
\<close>

datatype turn_result = Responded state pyval pyval | HTTP500 exn | Propagated exn

definition chat_endpoint ::
  "(pyval \<Rightarrow> string) \<Rightarrow> string \<Rightarrow> booking_env \<Rightarrow> post_booking \<Rightarrow> workflow_outcome \<Rightarrow>
   chat_request \<Rightarrow> pyval \<Rightarrow> pyval \<Rightarrow> turn_result" where
  "chat_endpoint repr now env pb outcome request recent_messages prior_filters =
     (case bnd (final_state repr now env pb outcome request recent_messages prior_filters)
             (\<lambda>(fs, booking_updates).
                bnd (py_len (get_or fs ''properties'' (PList []))) (\<lambda>n.
                  Inr (Responded fs (response_text fs booking_updates)
                         (response_actions fs booking_updates)))) of
        Inr r \<Rightarrow> r
      | Inl e \<Rightarrow> if is_Exception e then HTTP500 e else Propagated e)"

text \<open>
  The three things a final state is to carry: a non-empty response message, between one
  and three suggested actions, and the terminal flag.
\<close>

fun short_nonempty_list :: "pyval \<Rightarrow> bool" where
  "short_nonempty_list (PList xs) = (1 \<le> length xs \<and> length xs \<le> 3)"
| "short_nonempty_list _ = False"

definition terminal_shape :: "state \<Rightarrow> bool" where
  "terminal_shape fs =
     (nonempty_str (get_none fs ''response_message'') \<and>
      short_nonempty_list (get_none fs ''suggested_actions'') \<and>
      fs ''workflow_complete'' = Some (PBool True))"

text \<open>
  A turn that answers from a final state of that shape, sending its message and its
  actions.
\<close>

definition turn_complete :: "turn_result \<Rightarrow> bool" where
  "turn_complete r =
     (case r of
        Responded fs response actions \<Rightarrow>
          terminal_shape fs \<and> response = get_none fs ''response_message'' \<and>
          actions = get_none fs ''suggested_actions''
      | HTTP500 e \<Rightarrow> False
      | Propagated e \<Rightarrow> False)"

text \<open>Requests and surroundings for the examples.\<close>

definition plain_request :: chat_request where
  "plain_request =
     \<lparr>rq_query = PStr ''2 bed in Austin'', rq_user_id = PStr ''u1'',
      rq_conversation_history = PList [], rq_action_type = PNone, rq_property_id = PNone,
      rq_selected_slot = PNone, rq_user_info = PNone\<rparr>"

definition cancel_request :: chat_request where
  "cancel_request =
     \<lparr>rq_query = PStr ''cancel'', rq_user_id = PStr ''u1'',
      rq_conversation_history = PList [], rq_action_type = PStr ''cancel_booking'',
      rq_property_id = PStr ''p1'', rq_selected_slot = PNone, rq_user_info = PNone\<rparr>"

definition book_request :: chat_request where
  "book_request =
     \<lparr>rq_query = PStr ''book'', rq_user_id = PStr ''u1'',
      rq_conversation_history = PList [], rq_action_type = PStr ''book_schedule'',
      rq_property_id = PNone, rq_selected_slot = PNone, rq_user_info = PNone\<rparr>"

definition quiet_env :: booking_env where
  "quiet_env = \<lparr>be_all_properties = Inr [], be_details = Inr (PDict []), be_slots = PList []\<rparr>"

definition no_post_booking :: post_booking where
  "no_post_booking = \<lparr>pb_event_id = None, pb_sms = None\<rparr>"

definition info_request :: chat_request where
  "info_request =
     \<lparr>rq_query = PStr ''5'', rq_user_id = PStr ''u1'',
      rq_conversation_history = PList [], rq_action_type = PStr ''provide_info'',
      rq_property_id = PStr ''p1'', rq_selected_slot = PStr ''2026-01-05 09:00:00'',
      rq_user_info = PDict [(''name'', PInt 5)]\<rparr>"

text \<open>
  A response of the response collaborator whose message, if it is a dict and has one, is a
  non-empty string.
\<close>

definition message_ok :: "exn + pyval \<Rightarrow> bool" where
  "message_ok r =
     (case r of
        Inl e \<Rightarrow> True
      | Inr v \<Rightarrow>
          (case v of
             PDict kvs \<Rightarrow>
               (case map_of kvs ''message'' of None \<Rightarrow> True | Some m \<Rightarrow> nonempty_str m)
           | other \<Rightarrow> True))"

text \<open>Responses of the collaborator and the deltas of the terminal node for them.\<close>

definition found_reply :: "exn + pyval" where
  "found_reply =
     Inr (PDict [(''message'', PStr ''I could not find a match. Try another city?''),
                 (''suggested_actions'', PList [PStr ''Try another city''])])"

definition found_delta :: delta where
  "found_delta =
     [''response_message'' \<mapsto> PStr ''I could not find a match. Try another city?'',
      ''suggested_actions'' \<mapsto> PList [PStr ''Try another city''],
      ''workflow_complete'' \<mapsto> PBool True]"

definition empty_reply :: "exn + pyval" where
  "empty_reply =
     Inr (PDict [(''message'', PStr []),
                 (''suggested_actions'', PList [PStr ''Try another city''])])"

definition empty_delta :: delta where
  "empty_delta =
     [''response_message'' \<mapsto> PStr [],
      ''suggested_actions'' \<mapsto> PList [PStr ''Try another city''],
      ''workflow_complete'' \<mapsto> PBool True]"

section \<open>Properties of the merge\<close>

lemma merge_present: "d k = Some v \<Longrightarrow> merge s d k = Some v"
  by (simp add: merge_def)

lemma merge_absent: "d k = None \<Longrightarrow> merge s d k = s k"
  by (simp add: merge_def)

lemma merge_empty: "merge s Map.empty = s"
  by (simp add: merge_def)

lemma dom_merge: "dom (merge s d) = dom s \<union> dom d"
  by (auto simp: merge_def split: option.splits)

text \<open>
  Claim C2.  Merging a delta overwrites exactly the keys present in the delta with the
  delta's values (an explicit \<^verbatim>\<open>None\<close> or an empty collection is a value like any
  other) and leaves every other key unchanged; after two merges each key holds the
  value of the last delta that set it, and a list value is replaced, never appended to.
\<close>

theorem merge_last_write_wins:
  "(\<forall>k \<in> dom d. merge s d k = d k) \<and>
   (\<forall>k. k \<notin> dom d \<longrightarrow> merge s d k = s k) \<and>
   (\<forall>k. merge (merge s d1) d2 k =
      (if k \<in> dom d2 then d2 k else if k \<in> dom d1 then d1 k else s k))"
  by (auto simp: merge_def split: option.splits)

theorem merge_last_write_wins_witness:
  "''error'' \<in> dom [''error'' \<mapsto> PNone, ''properties'' \<mapsto> PList []] \<and>
   ''intent'' \<notin> dom [''error'' \<mapsto> PNone, ''properties'' \<mapsto> PList []] \<and>
   merge [''error'' \<mapsto> PStr ''boom'', ''intent'' \<mapsto> PStr ''greeting'',
          ''properties'' \<mapsto> PList [PInt 1]]
         [''error'' \<mapsto> PNone, ''properties'' \<mapsto> PList []] ''error'' = Some PNone \<and>
   merge [''error'' \<mapsto> PStr ''boom'', ''intent'' \<mapsto> PStr ''greeting'',
          ''properties'' \<mapsto> PList [PInt 1]]
         [''error'' \<mapsto> PNone, ''properties'' \<mapsto> PList []] ''properties'' = Some (PList []) \<and>
   merge [''error'' \<mapsto> PStr ''boom'', ''intent'' \<mapsto> PStr ''greeting'',
          ''properties'' \<mapsto> PList [PInt 1]]
         [''error'' \<mapsto> PNone, ''properties'' \<mapsto> PList []] ''intent'' = Some (PStr ''greeting'') \<and>
   merge (merge Map.empty [''properties'' \<mapsto> PList [PInt 1]])
         [''properties'' \<mapsto> PList [PInt 2]] ''properties'' = Some (PList [PInt 2])"
proof -
  let ?s = "[''error'' \<mapsto> PStr ''boom'', ''intent'' \<mapsto> PStr ''greeting'',
             ''properties'' \<mapsto> PList [PInt 1]]"
  let ?d = "[''error'' \<mapsto> PNone, ''properties'' \<mapsto> PList []]"
  have a: "''error'' \<in> dom ?d" and b: "''properties'' \<in> dom ?d" and c: "''intent'' \<notin> dom ?d"
    by simp_all
  note w = merge_last_write_wins [of ?d ?s]
  have e1: "merge ?s ?d ''error'' = ?d ''error''" using w a by blast
  have e2: "merge ?s ?d ''properties'' = ?d ''properties''" using w b by blast
  have e3: "merge ?s ?d ''intent'' = ?s ''intent''" using w c by blast
  have e4: "merge (merge Map.empty [''properties'' \<mapsto> PList [PInt 1]])
              [''properties'' \<mapsto> PList [PInt 2]] ''properties'' = Some (PList [PInt 2])"
    using merge_last_write_wins [of Map.empty Map.empty
        "[''properties'' \<mapsto> PList [PInt 1]]" "[''properties'' \<mapsto> PList [PInt 2]]"]
    by simp
  show ?thesis using a c e1 e2 e3 e4 by simp
qed

section \<open>Properties of the routers\<close>

lemma route_if_member_in:
  "route_if_member v names = Inr r \<Longrightarrow> r \<in> set names \<or> r = ''generate_response''"
  by (cases v) (auto split: if_splits)

lemma route_if_member_typed:
  "absent_or_opt_str (Some v) \<Longrightarrow>
   route_if_member v names \<in> Inr ` (set names \<union> {''generate_response''})"
  by (cases v) auto

lemma py_ge_int: "py_ge (PInt a) (PInt b) = Inr (a \<ge> b)"
  by (simp add: py_ge_def bnd_def)

lemma py_lt_int: "py_lt (PInt a) (PInt b) = Inr (a < b)"
  by (simp add: py_lt_def bnd_def)

lemma get_or_int:
  "absent_or_int (s k) \<Longrightarrow> \<exists>i. get_or s k (PInt d) = PInt i"
  by (cases "s k" rule: absent_or_int.cases) (auto simp: get_or_def)

lemma get_or_dict:
  "absent_or_dict (s k) \<Longrightarrow> \<exists>kvs. get_or s k (PDict d) = PDict kvs"
  by (cases "s k" rule: absent_or_dict.cases) (auto simp: get_or_def)

lemma get_or_opt_str:
  "absent_or_opt_str (s k) \<Longrightarrow> absent_or_opt_str (Some (get_or s k (PStr d)))"
  by (cases "s k" rule: absent_or_opt_str.cases) (auto simp: get_or_def)

lemma route_from_intent_typed:
  assumes "absent_or_opt_str (s ''intent'')"
  shows "route_from_intent s \<in> Inr ` set edges_from_intent"
proof -
  let ?i = "get_or s ''intent'' (PStr ''general_info'')"
  have h: "hashable ?i"
    using assms get_or_opt_str [of s "''intent''" "''general_info''"] by (cases ?i) auto
  have "(case map_of intent_routes ?i of None \<Rightarrow> ''generate_response'' | Some r \<Rightarrow> r)
          \<in> set edges_from_intent"
    by (auto simp: intent_routes_def edges_from_intent_def split: option.splits if_splits)
  with h show ?thesis by (simp add: route_from_intent_def Let_def)
qed

lemma route_after_search_typed:
  assumes "absent_or_dict (s ''fallback_context'')"
    and "absent_or_int (s ''search_iterations'')"
    and "absent_or_int (s ''max_search_iterations'')"
  shows "route_after_search s \<in> Inr ` set edges_after_search"
proof -
  obtain kvs where f: "get_or s ''fallback_context'' (PDict []) = PDict kvs"
    using assms(1) get_or_dict [of s "''fallback_context''"] by blast
  obtain i where i: "get_or s ''search_iterations'' (PInt 0) = PInt i"
    using assms(2) get_or_int [of s "''search_iterations''"] by blast
  obtain m where m: "get_or s ''max_search_iterations'' (PInt 3) = PInt m"
    using assms(3) get_or_int [of s "''max_search_iterations''"] by blast
  show ?thesis
    by (simp add: route_after_search_def f i m py_get_def bnd_def py_ge_int
        edges_after_search_def)
qed

lemma route_after_reflect_typed:
  assumes "absent_or_int (s ''reflection_loops'')"
    and "absent_or_int (s ''max_research_loops'')"
    and "absent_or_opt_str (s ''next_step'')"
  shows "route_after_reflect s \<in> Inr ` set edges_after_reflect"
proof -
  obtain i where i: "get_or s ''reflection_loops'' (PInt 0) = PInt i"
    using assms(1) get_or_int [of s "''reflection_loops''"] by blast
  obtain m where m: "get_or s ''max_research_loops'' (PInt 1) = PInt m"
    using assms(2) get_or_int [of s "''max_research_loops''"] by blast
  have n: "route_if_member (get_or s ''next_step'' (PStr ''generate_response''))
             [''search_properties'', ''generate_response'']
           \<in> Inr ` (set [''search_properties'', ''generate_response''] \<union> {''generate_response''})"
    using assms(3) get_or_opt_str [of s "''next_step''" "''generate_response''"]
    by (intro route_if_member_typed) simp
  show ?thesis
    using n by (auto simp: route_after_reflect_def i m bnd_def py_ge_int edges_after_reflect_def)
qed

lemma route_next_step_typed:
  assumes "absent_or_opt_str (s ''next_step'')"
  shows "route_next_step s \<in> Inr ` set valid_routes"
proof -
  have "route_if_member (get_or s ''next_step'' (PStr ''generate_response'')) valid_routes
          \<in> Inr ` (set valid_routes \<union> {''generate_response''})"
    using assms get_or_opt_str [of s "''next_step''" "''generate_response''"]
    by (intro route_if_member_typed) simp
  moreover have "''generate_response'' \<in> set valid_routes"
    by (simp add: valid_routes_def)
  ultimately show ?thesis by (auto simp: route_next_step_def)
qed

lemma routers_total_on_typed_states:
  assumes "router_fields_typed s"
  shows "route_from_intent s \<in> Inr ` set edges_from_intent \<and>
         route_after_search s \<in> Inr ` set edges_after_search \<and>
         route_after_reflect s \<in> Inr ` set edges_after_reflect \<and>
         route_next_step s \<in> Inr ` set valid_routes"
proof -
  from assms have t:
    "absent_or_dict (s ''fallback_context'')" "absent_or_int (s ''search_iterations'')"
    "absent_or_int (s ''max_search_iterations'')" "absent_or_int (s ''reflection_loops'')"
    "absent_or_int (s ''max_research_loops'')" "absent_or_opt_str (s ''intent'')"
    "absent_or_opt_str (s ''next_step'')"
    by (simp_all add: router_fields_typed_def)
  have 1: "route_from_intent s \<in> Inr ` set edges_from_intent"
    using t(6) by (rule route_from_intent_typed)
  have 2: "route_after_search s \<in> Inr ` set edges_after_search"
    using t(1) t(2) t(3) by (rule route_after_search_typed)
  have 3: "route_after_reflect s \<in> Inr ` set edges_after_reflect"
    using t(4) t(5) t(7) by (rule route_after_reflect_typed)
  have 8: "route_next_step s \<in> Inr ` set valid_routes"
    using t(7) by (rule route_next_step_typed)
  from 1 2 3 8 show ?thesis by blast
qed

lemma intent_target_in_edges:
  "(case map_of intent_routes i of None \<Rightarrow> ''generate_response'' | Some r \<Rightarrow> r)
     \<in> set edges_from_intent"
  by (auto simp: intent_routes_def edges_from_intent_def split: option.splits if_splits)

lemma route_if_member_hashable:
  "hashable v \<Longrightarrow> route_if_member v names \<in> Inr ` (set names \<union> {''generate_response''})"
  by (cases v) auto

lemma route_if_member_unhashable: "\<not> hashable v \<Longrightarrow> isl (route_if_member v names)"
  by (cases v) auto

lemma route_if_member_default:
  "hashable v \<Longrightarrow> v \<notin> PStr ` set names \<Longrightarrow> route_if_member v names = Inr ''generate_response''"
  by (cases v) auto

lemma route_from_intent_exact:
  "if intent_routable s then route_from_intent s \<in> Inr ` set edges_from_intent
   else isl (route_from_intent s)"
  by (simp add: route_from_intent_def Let_def intent_routable_def intent_target_in_edges)

lemma route_from_intent_default:
  assumes "intent_routable s"
    and "get_or s ''intent'' (PStr ''general_info'') \<notin> fst ` set intent_routes"
  shows "route_from_intent s = Inr ''generate_response''"
proof -
  from assms(2) have "map_of intent_routes (get_or s ''intent'' (PStr ''general_info'')) = None"
    by (simp add: map_of_eq_None_iff)
  with assms(1) show ?thesis
    by (simp add: route_from_intent_def Let_def intent_routable_def)
qed

lemma route_next_step_exact:
  "if next_step_routable s then route_next_step s \<in> Inr ` set valid_routes
   else isl (route_next_step s)"
proof (cases "next_step_routable s")
  case True
  then have "route_if_member (get_or s ''next_step'' (PStr ''generate_response'')) valid_routes
               \<in> Inr ` (set valid_routes \<union> {''generate_response''})"
    unfolding next_step_routable_def by (rule route_if_member_hashable)
  moreover have "''generate_response'' \<in> set valid_routes" by (simp add: valid_routes_def)
  ultimately show ?thesis using True by (auto simp: route_next_step_def)
next
  case False
  then show ?thesis
    by (simp add: route_next_step_def next_step_routable_def route_if_member_unhashable)
qed

lemma route_after_search_exact:
  "if search_routable s then route_after_search s \<in> Inr ` set edges_after_search
   else isl (route_after_search s)"
proof (cases "get_or s ''fallback_context'' (PDict [])")
  case (PDict kvs)
  show ?thesis
  proof (cases "py_order (get_or s ''search_iterations'' (PInt 0))
                  (get_or s ''max_search_iterations'' (PInt 3))")
    case (Inl e)
    with PDict show ?thesis
      by (auto simp: route_after_search_def search_routable_def ordered_def py_get_def bnd_def
            py_ge_def edges_after_search_def split: option.splits)
  next
    case (Inr c)
    with PDict show ?thesis
      by (auto simp: route_after_search_def search_routable_def ordered_def py_get_def bnd_def
            py_ge_def edges_after_search_def split: option.splits)
  qed
qed (simp_all add: route_after_search_def search_routable_def py_get_def bnd_def)

lemma route_after_search_properties:
  assumes "search_routable s" and "truthy (get_or s ''properties'' (PList []))"
  shows "route_after_search s = Inr ''generate_response''"
proof (cases "get_or s ''fallback_context'' (PDict [])")
  case (PDict kvs)
  show ?thesis
  proof (cases "py_order (get_or s ''search_iterations'' (PInt 0))
                  (get_or s ''max_search_iterations'' (PInt 3))")
    case (Inl e)
    with PDict assms show ?thesis
      by (auto simp: route_after_search_def search_routable_def ordered_def py_get_def bnd_def
            py_ge_def split: option.splits)
  next
    case (Inr c)
    with PDict assms show ?thesis
      by (auto simp: route_after_search_def search_routable_def ordered_def py_get_def bnd_def
            py_ge_def split: option.splits)
  qed
qed (use assms in \<open>simp_all add: search_routable_def\<close>)

lemma route_after_reflect_exact:
  "if reflect_routable s then route_after_reflect s \<in> Inr ` set edges_after_reflect
   else isl (route_after_reflect s)"
proof (cases "py_order (get_or s ''reflection_loops'' (PInt 0))
                (get_or s ''max_research_loops'' (PInt 1))")
  case (Inl e)
  then show ?thesis
    by (simp add: route_after_reflect_def reflect_routable_def ordered_def py_ge_def bnd_def)
next
  case (Inr c)
  show ?thesis
  proof (cases "c = LT")
    case False
    with Inr show ?thesis
      by (simp add: route_after_reflect_def reflect_routable_def ordered_def py_ge_def bnd_def
            edges_after_reflect_def)
  next
    case True
    show ?thesis
    proof (cases "next_step_routable s")
      case h: True
      then have "route_if_member (get_or s ''next_step'' (PStr ''generate_response''))
                   [''search_properties'', ''generate_response'']
                 \<in> Inr ` (set [''search_properties'', ''generate_response''] \<union>
                          {''generate_response''})"
        unfolding next_step_routable_def by (rule route_if_member_hashable)
      with Inr True h show ?thesis
        by (auto simp: route_after_reflect_def reflect_routable_def ordered_def py_ge_def
              bnd_def edges_after_reflect_def)
    next
      case h: False
      then have "isl (route_if_member (get_or s ''next_step'' (PStr ''generate_response''))
                        [''search_properties'', ''generate_response''])"
        unfolding next_step_routable_def by (rule route_if_member_unhashable)
      with Inr True h show ?thesis
        by (simp add: route_after_reflect_def reflect_routable_def ordered_def py_ge_def bnd_def)
    qed
  qed
qed

lemma route_after_reflect_default:
  assumes "reflect_routable s"
    and "get_or s ''next_step'' (PStr ''generate_response'') \<noteq> PStr ''search_properties''"
  shows "route_after_reflect s = Inr ''generate_response''"
proof (cases "py_order (get_or s ''reflection_loops'' (PInt 0))
                (get_or s ''max_research_loops'' (PInt 1))")
  case (Inl e)
  with assms(1) show ?thesis by (simp add: reflect_routable_def ordered_def)
next
  case (Inr c)
  show ?thesis
  proof (cases "c = LT")
    case False
    with Inr show ?thesis by (simp add: route_after_reflect_def py_ge_def bnd_def)
  next
    case True
    with Inr assms(1) have h: "hashable (get_or s ''next_step'' (PStr ''generate_response''))"
      by (simp add: reflect_routable_def py_ge_def bnd_def next_step_routable_def)
    have "route_if_member (get_or s ''next_step'' (PStr ''generate_response''))
            [''search_properties'', ''generate_response''] = Inr ''generate_response''"
    proof (cases "get_or s ''next_step'' (PStr ''generate_response'')")
      case (PStr x)
      with assms(2) show ?thesis by auto
    next
      case (PList xs)
      with h show ?thesis by simp
    next
      case (PDict kvs)
      with h show ?thesis by simp
    qed simp_all
    with Inr True show ?thesis by (simp add: route_after_reflect_def py_ge_def bnd_def)
  qed
qed

text \<open>
  Claim C6, as the code has it.  No router ever returns a string outside the target set
  declared for it in \<^verbatim>\<open>add_conditional_edges\<close> (for the unwired \<^verbatim>\<open>route_next_step\<close>:
  outside its \<^verbatim>\<open>valid_routes\<close>), but four of them are not total: each returns a member of
  its set exactly on the states on which its reads do not raise, and raises on all
  others.  \<^verbatim>\<open>route_from_intent\<close> and \<^verbatim>\<open>route_next_step\<close> raise on an unhashable intent
  or next-step hint; \<^verbatim>\<open>route_after_search\<close> raises on a fallback context that is
  present and no dict and, unless the context has the type \<^verbatim>\<open>need_criteria\<close>, on search
  counters that cannot be compared; \<^verbatim>\<open>route_after_reflect\<close> raises on reflection
  counters that cannot be compared and, below the ceiling, on an unhashable next-step
  hint.  The other four routers always return a member of their sets.  Where they return,
  \<^verbatim>\<open>route_from_intent\<close>, \<^verbatim>\<open>route_next_step\<close> and \<^verbatim>\<open>route_after_reflect\<close> give
  \<^verbatim>\<open>generate_response\<close> for an intent outside the routing table, a hint outside the
  valid routes and a hint other than \<^verbatim>\<open>search_properties\<close>; \<^verbatim>\<open>route_after_search\<close> gives
  it when there are results; \<^verbatim>\<open>route_after_user_info\<close> and
  \<^verbatim>\<open>route_after_calendar\<close> give it when a required field or the event identifier is
  missing.
\<close>

theorem routers_return_member_or_raise:
  "(if intent_routable s then route_from_intent s \<in> Inr ` set edges_from_intent
    else isl (route_from_intent s))
   \<and> (if search_routable s then route_after_search s \<in> Inr ` set edges_after_search
       else isl (route_after_search s))
   \<and> (if reflect_routable s then route_after_reflect s \<in> Inr ` set edges_after_reflect
       else isl (route_after_reflect s))
   \<and> (if next_step_routable s then route_next_step s \<in> Inr ` set valid_routes
       else isl (route_next_step s))
   \<and> route_after_slots s \<in> Inr ` set edges_after_slots
   \<and> route_after_user_info s \<in> Inr ` set edges_after_user_info
   \<and> route_after_calendar s \<in> Inr ` set edges_after_calendar
   \<and> route_after_sms s \<in> Inr ` set edges_after_sms
   \<and> (intent_routable s \<longrightarrow>
        get_or s ''intent'' (PStr ''general_info'') \<notin> fst ` set intent_routes \<longrightarrow>
        route_from_intent s = Inr ''generate_response'')
   \<and> (next_step_routable s \<longrightarrow>
        get_or s ''next_step'' (PStr ''generate_response'') \<notin> PStr ` set valid_routes \<longrightarrow>
        route_next_step s = Inr ''generate_response'')
   \<and> (reflect_routable s \<longrightarrow>
        get_or s ''next_step'' (PStr ''generate_response'') \<noteq> PStr ''search_properties'' \<longrightarrow>
        route_after_reflect s = Inr ''generate_response'')
   \<and> (search_routable s \<longrightarrow> truthy (get_or s ''properties'' (PList [])) \<longrightarrow>
        route_after_search s = Inr ''generate_response'')
   \<and> (\<not> list_all (\<lambda>field. truthy (get_none s field)) required_state_fields \<longrightarrow>
        route_after_user_info s = Inr ''generate_response'')
   \<and> (\<not> truthy (get_none s ''calendar_event_id'') \<longrightarrow>
        route_after_calendar s = Inr ''generate_response'')"
proof -
  have 5: "route_after_slots s \<in> Inr ` set edges_after_slots"
    by (simp add: route_after_slots_def edges_after_slots_def)
  have 6: "route_after_user_info s \<in> Inr ` set edges_after_user_info"
    by (simp add: route_after_user_info_def edges_after_user_info_def)
  have 7: "route_after_calendar s \<in> Inr ` set edges_after_calendar"
    by (simp add: route_after_calendar_def edges_after_calendar_def)
  have 8: "route_after_sms s \<in> Inr ` set edges_after_sms"
    by (simp add: route_after_sms_def edges_after_sms_def)
  have 9: "intent_routable s \<longrightarrow>
        get_or s ''intent'' (PStr ''general_info'') \<notin> fst ` set intent_routes \<longrightarrow>
        route_from_intent s = Inr ''generate_response''"
    using route_from_intent_default [of s] by (intro impI)
  have 10: "next_step_routable s \<longrightarrow>
        get_or s ''next_step'' (PStr ''generate_response'') \<notin> PStr ` set valid_routes \<longrightarrow>
        route_next_step s = Inr ''generate_response''"
    by (simp add: route_next_step_def next_step_routable_def route_if_member_default)
  have 11: "reflect_routable s \<longrightarrow>
        get_or s ''next_step'' (PStr ''generate_response'') \<noteq> PStr ''search_properties'' \<longrightarrow>
        route_after_reflect s = Inr ''generate_response''"
    using route_after_reflect_default [of s] by (intro impI)
  have 12: "search_routable s \<longrightarrow> truthy (get_or s ''properties'' (PList [])) \<longrightarrow>
        route_after_search s = Inr ''generate_response''"
    using route_after_search_properties [of s] by (intro impI)
  have 13: "\<not> list_all (\<lambda>field. truthy (get_none s field)) required_state_fields \<longrightarrow>
        route_after_user_info s = Inr ''generate_response''"
    by (simp add: route_after_user_info_def)
  have 14: "\<not> truthy (get_none s ''calendar_event_id'') \<longrightarrow>
        route_after_calendar s = Inr ''generate_response''"
    by (simp add: route_after_calendar_def)
  from route_from_intent_exact [of s] route_after_search_exact [of s]
    route_after_reflect_exact [of s] route_next_step_exact [of s] 5 6 7 8 9 10 11 12 13 14
  show ?thesis by - (intro conjI, assumption+)
qed

theorem routers_return_member_or_raise_witness:
  "intent_routable odd_state
   \<and> get_or odd_state ''intent'' (PStr ''general_info'') \<notin> fst ` set intent_routes
   \<and> route_from_intent odd_state = Inr ''generate_response''
   \<and> next_step_routable odd_state
   \<and> get_or odd_state ''next_step'' (PStr ''generate_response'') \<notin> PStr ` set valid_routes
   \<and> route_next_step odd_state = Inr ''generate_response''
   \<and> reflect_routable odd_state
   \<and> get_or odd_state ''next_step'' (PStr ''generate_response'') \<noteq> PStr ''search_properties''
   \<and> route_after_reflect odd_state = Inr ''generate_response''
   \<and> search_routable odd_state
   \<and> truthy (get_or odd_state ''properties'' (PList []))
   \<and> route_after_search odd_state = Inr ''generate_response''
   \<and> \<not> list_all (\<lambda>field. truthy (get_none odd_state field)) required_state_fields
   \<and> route_after_user_info odd_state = Inr ''generate_response''
   \<and> \<not> truthy (get_none odd_state ''calendar_event_id'')
   \<and> route_after_calendar odd_state = Inr ''generate_response''"
proof -
  have h1: "intent_routable odd_state"
    by (simp add: intent_routable_def odd_state_def get_or_def)
  have h2: "get_or odd_state ''intent'' (PStr ''general_info'') \<notin> fst ` set intent_routes"
    by (simp add: odd_state_def get_or_def intent_routes_def)
  have h3: "next_step_routable odd_state"
    by (simp add: next_step_routable_def odd_state_def get_or_def)
  have h4: "get_or odd_state ''next_step'' (PStr ''generate_response'') \<notin> PStr ` set valid_routes"
    by (auto simp: odd_state_def get_or_def valid_routes_def)
  have h5: "reflect_routable odd_state"
    by (simp add: reflect_routable_def ordered_def next_step_routable_def odd_state_def
          get_or_def)
  have h6: "get_or odd_state ''next_step'' (PStr ''generate_response'') \<noteq> PStr ''search_properties''"
    by (simp add: odd_state_def get_or_def)
  have h7: "search_routable odd_state"
    by (simp add: search_routable_def ordered_def odd_state_def get_or_def)
  have h8: "truthy (get_or odd_state ''properties'' (PList []))"
    by (simp add: odd_state_def get_or_def)
  have h9: "\<not> list_all (\<lambda>field. truthy (get_none odd_state field)) required_state_fields"
    by (simp add: required_state_fields_def odd_state_def get_none_def get_or_def)
  have h10: "\<not> truthy (get_none odd_state ''calendar_event_id'')"
    by (simp add: odd_state_def get_none_def get_or_def)
  note t = routers_return_member_or_raise [of odd_state]
  from t h1 h2 have c1: "route_from_intent odd_state = Inr ''generate_response''" by blast
  from t h3 h4 have c2: "route_next_step odd_state = Inr ''generate_response''" by blast
  from t h5 h6 have c3: "route_after_reflect odd_state = Inr ''generate_response''" by blast
  from t h7 h8 have c4: "route_after_search odd_state = Inr ''generate_response''" by blast
  from t h9 have c5: "route_after_user_info odd_state = Inr ''generate_response''" by blast
  from t h10 have c6: "route_after_calendar odd_state = Inr ''generate_response''" by blast
  from h1 h2 c1 h3 h4 c2 h5 h6 c3 h7 h8 c4 h9 c5 h10 c6 show ?thesis by (intro conjI)
qed

text \<open>
  Claim C6 as stated fails: \<^verbatim>\<open>fallback_context\<close> is annotated
  \<^verbatim>\<open>Optional[Dict[str, Any]]\<close>, and on a state that holds an explicit \<^verbatim>\<open>None\<close> there
  \<^verbatim>\<open>route_after_search\<close> evaluates \<^verbatim>\<open>None.get("type")\<close> and raises instead of returning
  a node identifier.
\<close>

theorem route_after_search_raises_on_none_fallback:
  "route_after_search [''fallback_context'' \<mapsto> PNone] =
     Inl (AttributeError ''object has no attribute 'get' '')"
  by (simp add: route_after_search_def get_or_def py_get_def bnd_def)

section \<open>Properties of the reflect cycle\<close>

text \<open>
  Claim C1.  The state after a search that found nothing, with reflection loop count 0
  and the default ceiling 1: the router after search goes to \<^verbatim>\<open>reflect\<close>, the reflect
  node chooses another search (\<^verbatim>\<open>next_step = "search_properties"\<close>) and sets the loop
  count to 1; on the merged state the router after reflect then compares
  \<^verbatim>\<open>1 >= 1\<close> and returns \<^verbatim>\<open>generate_response\<close>: the second search attempt the claim
  describes is never executed.  The state still carries the no-results fallback context.
\<close>

theorem reflect_loop_back_not_routed:
  "route_after_search
     [''user_query'' \<mapsto> PStr ''2 bed in Austin'', ''properties'' \<mapsto> PList [],
      ''fallback_context'' \<mapsto> PDict [(''type'', PStr ''no_properties''), (''details'', PDict [])],
      ''reflection_loops'' \<mapsto> PInt 0] = Inr ''reflect'' \<and>
   reflect_body
     [''user_query'' \<mapsto> PStr ''2 bed in Austin'', ''properties'' \<mapsto> PList [],
      ''fallback_context'' \<mapsto> PDict [(''type'', PStr ''no_properties''), (''details'', PDict [])],
      ''reflection_loops'' \<mapsto> PInt 0] endpoint_config =
     Inr [''reflection_notes'' \<mapsto> PStr ''Insufficient results. Try refining search.'',
          ''needs_more_research'' \<mapsto> PBool True,
          ''reflection_loops'' \<mapsto> PInt 1,
          ''next_step'' \<mapsto> PStr ''search_properties''] \<and>
   route_after_reflect
     (merge
        [''user_query'' \<mapsto> PStr ''2 bed in Austin'', ''properties'' \<mapsto> PList [],
         ''fallback_context'' \<mapsto> PDict [(''type'', PStr ''no_properties''), (''details'', PDict [])],
         ''reflection_loops'' \<mapsto> PInt 0]
        [''reflection_notes'' \<mapsto> PStr ''Insufficient results. Try refining search.'',
         ''needs_more_research'' \<mapsto> PBool True,
         ''reflection_loops'' \<mapsto> PInt 1,
         ''next_step'' \<mapsto> PStr ''search_properties'']) = Inr ''generate_response'' \<and>
   merge
     [''user_query'' \<mapsto> PStr ''2 bed in Austin'', ''properties'' \<mapsto> PList [],
      ''fallback_context'' \<mapsto> PDict [(''type'', PStr ''no_properties''), (''details'', PDict [])],
      ''reflection_loops'' \<mapsto> PInt 0]
     [''reflection_notes'' \<mapsto> PStr ''Insufficient results. Try refining search.'',
      ''needs_more_research'' \<mapsto> PBool True,
      ''reflection_loops'' \<mapsto> PInt 1,
      ''next_step'' \<mapsto> PStr ''search_properties''] ''fallback_context'' =
     Some (PDict [(''type'', PStr ''no_properties''), (''details'', PDict [])])"
  by (simp add: route_after_search_def route_after_reflect_def reflect_body_def
      endpoint_config_def get_or_def py_get_def bnd_def py_ge_def py_lt_def
      py_or_def merge_def)

section \<open>Properties of the decorators\<close>

lemma error_handler_success:
  "snd (func s cfg) = Inr d \<Longrightarrow> snd (error_handler func s cfg) = Inr d"
  by (cases "func s cfg") (simp add: error_handler_def)

lemma error_handler_catches:
  "snd (func s cfg) = Inl e \<Longrightarrow> is_Exception e \<Longrightarrow>
   snd (error_handler func s cfg) = Inr [''error'' \<mapsto> PStr (str_exn e)]"
  by (cases "func s cfg") (simp add: error_handler_def)

lemma error_handler_passes_base_exception:
  "snd (func s cfg) = Inl e \<Longrightarrow> \<not> is_Exception e \<Longrightarrow>
   snd (error_handler func s cfg) = Inl e"
  by (cases "func s cfg") (simp add: error_handler_def)

lemma track_workflow_execution_result:
  "snd (track_workflow_execution node_name func s cfg) = snd (func s cfg)"
  by (cases "func s cfg") (auto simp: track_workflow_execution_def split: sum.splits)

lemma track_node_execution_reraises:
  "input_data s = Inr u \<Longrightarrow> snd (func s cfg) = Inl e \<Longrightarrow>
   snd (track_node_execution node_id func s cfg) = Inl e"
  by (cases "func s cfg") (simp add: track_node_execution_def)

lemma track_node_execution_input_raises:
  "input_data s = Inl e \<Longrightarrow> track_node_execution node_id func s cfg = ([], Inl e)"
  by (simp add: track_node_execution_def)

text \<open>
  Claim C4, as the code has it.  An exception of class \<^verbatim>\<open>Exception\<close> raised inside a
  node function decorated with \<^verbatim>\<open>error_handler\<close> does not leave the decorator: the
  result is the delta \<^verbatim>\<open>{"error": str(e)}\<close>.  The two tracking wrappers convert
  nothing: \<^verbatim>\<open>track_workflow_execution\<close> and the wrapper around every node call,
  \<^verbatim>\<open>track_node_execution\<close>, raise again whatever the function they wrap raised.
\<close>

theorem error_handler_converts_trackers_reraise:
  assumes "snd (func s cfg) = Inl e"
  shows "(is_Exception e \<longrightarrow>
            snd (error_handler func s cfg) = Inr [''error'' \<mapsto> PStr (str_exn e)]) \<and>
         snd (track_workflow_execution node_id func s cfg) = Inl e \<and>
         (input_data s = Inr () \<longrightarrow> snd (track_node_execution node_id func s cfg) = Inl e)"
  using assms error_handler_catches [of func s cfg e]
    track_workflow_execution_result [of node_id func s cfg]
    track_node_execution_reraises [of s "()" func cfg e node_id]
  by simp

theorem error_handler_converts_trackers_reraise_witness:
  "snd (untraced reflect_body [''fallback_context'' \<mapsto> PNone] NoConfig) =
     Inl (AttributeError ''object has no attribute 'get' '') \<and>
   is_Exception (AttributeError ''object has no attribute 'get' '') \<and>
   input_data [''fallback_context'' \<mapsto> PNone] = Inr () \<and>
   snd (error_handler (untraced reflect_body) [''fallback_context'' \<mapsto> PNone] NoConfig) =
     Inr [''error'' \<mapsto> PStr ''object has no attribute 'get' ''] \<and>
   snd (track_node_execution ''reflect'' (untraced reflect_body)
          [''fallback_context'' \<mapsto> PNone] NoConfig) =
     Inl (AttributeError ''object has no attribute 'get' '')"
proof -
  let ?s = "[''fallback_context'' \<mapsto> PNone]"
  let ?e = "AttributeError ''object has no attribute 'get' ''"
  have r: "snd (untraced reflect_body ?s NoConfig) = Inl ?e"
    by (simp add: untraced_def reflect_body_def get_or_def py_get_def bnd_def)
  have i: "input_data ?s = Inr ()"
    by (simp add: input_data_def get_or_def bnd_def)
  have x: "is_Exception ?e" by simp
  from error_handler_converts_trackers_reraise
         [of "untraced reflect_body" ?s NoConfig ?e "''reflect''"] r i x
  show ?thesis by simp
qed

text \<open>
  Claim C4 as stated fails for the wrapper around every node call: around a node body
  that raises (here the undecorated body of the reflect node on a state whose fallback
  context is \<^verbatim>\<open>None\<close>) \<^verbatim>\<open>track_node_execution\<close> reports the error and raises it
  again; and the decorated reflect node itself lets the \<^verbatim>\<open>TypeError\<close> of the
  wrapper's own \<^verbatim>\<open>len(state.get("properties", []))\<close> through to the driver.
\<close>

theorem track_node_execution_does_not_convert:
  "track_node_execution ''reflect'' (untraced reflect_body)
     [''fallback_context'' \<mapsto> PNone] NoConfig =
     ([(''reflect'', RUNNING), (''reflect'', ERROR)],
      Inl (AttributeError ''object has no attribute 'get' '')) \<and>
   reflect [''properties'' \<mapsto> PNone] endpoint_config =
     ([], Inl (TypeError ''object has no len()''))"
  by (simp add: track_node_execution_def input_data_def untraced_def reflect_body_def
      reflect_def get_or_def py_get_def bnd_def)

section \<open>Properties of the terminal node\<close>

lemma first_actions_length:
  "first_actions repr a = Inr acts \<Longrightarrow> truthy a \<Longrightarrow> 1 \<le> length acts \<and> length acts \<le> 3"
  by (cases a) (auto simp: Suc_le_eq)

lemma first_actions_truncates:
  "first_actions repr (PList xs) = Inr (map (\<lambda>a. PStr (py_str repr a)) (take 3 xs))"
  by simp

lemma process_response_actions:
  assumes "process_response repr r = Inr d"
  shows "\<exists>acts. d ''suggested_actions'' = Some (PList acts) \<and>
               1 \<le> length acts \<and> length acts \<le> 3"
proof -
  from assms obtain m a where
    m: "py_get_or r ''message'' (PStr default_message) = Inr m" and
    a: "py_get_or r ''suggested_actions'' (PList []) = Inr a" and
    d: "(if truthy a
         then bnd (first_actions repr a) (\<lambda>acts.
                Inr [''response_message'' \<mapsto> m, ''suggested_actions'' \<mapsto> PList acts])
         else Inr [''response_message'' \<mapsto> m,
                   ''suggested_actions'' \<mapsto> PList default_actions]) = Inr d"
    by (auto simp: process_response_def bnd_def split: sum.splits)
  show ?thesis
  proof (cases "truthy a")
    case True
    with d obtain acts where f: "first_actions repr a = Inr acts"
      and d': "d = [''response_message'' \<mapsto> m, ''suggested_actions'' \<mapsto> PList acts]"
      by (auto simp: bnd_def split: sum.splits)
    from first_actions_length [OF f True] d' show ?thesis by simp
  next
    case False
    with d show ?thesis by (auto simp: default_actions_def)
  qed
qed

lemma process_response_message:
  assumes "process_response repr r = Inr d"
  shows "\<exists>m. d ''response_message'' = Some m \<and>
           (m = PStr default_message \<or>
            (\<exists>kvs. r = PDict kvs \<and> map_of kvs ''message'' = Some m))"
proof -
  from assms obtain kvs where r: "r = PDict kvs"
    by (cases r) (auto simp: process_response_def bnd_def)
  let ?m = "case map_of kvs ''message'' of None \<Rightarrow> PStr default_message | Some v \<Rightarrow> v"
  from assms r have "d ''response_message'' = Some ?m"
    by (auto simp: process_response_def bnd_def split: sum.splits if_splits)
  moreover have "?m = PStr default_message \<or> map_of kvs ''message'' = Some ?m"
    by (cases "map_of kvs ''message''") auto
  ultimately show ?thesis using r by blast
qed

lemma process_response_default_message:
  "process_response repr (PDict kvs) = Inr d \<Longrightarrow> map_of kvs ''message'' = None \<Longrightarrow>
   d ''response_message'' = Some (PStr default_message)"
  by (auto simp: process_response_def bnd_def split: sum.splits if_splits)

lemma process_response_keeps_message:
  "process_response repr (PDict kvs) = Inr d \<Longrightarrow> map_of kvs ''message'' = Some m \<Longrightarrow>
   d ''response_message'' = Some m"
  by (auto simp: process_response_def bnd_def split: sum.splits if_splits)

lemma default_message_nonempty: "nonempty_str (PStr default_message)"
  by (simp add: default_message_def)

lemma handle_response_error_shape:
  "(\<exists>acts. handle_response_error repr retry s ''suggested_actions'' = Some (PList acts) \<and>
          1 \<le> length acts \<and> length acts \<le> 3) \<and>
   (\<exists>m. handle_response_error repr retry s ''response_message'' = Some m \<and>
       (nonempty_str m \<or> (\<exists>kvs. retry = Inr (PDict kvs) \<and> map_of kvs ''message'' = Some m)))"
proof (cases "bnd (getitem s ''user_query'') (\<lambda>_. bnd retry (process_response repr))")
  case (Inl e)
  then show ?thesis
    by (simp add: handle_response_error_def ultimate_fallback_def)
next
  case (Inr d)
  then obtain r where r: "retry = Inr r" and p: "process_response repr r = Inr d"
    by (auto simp: bnd_def split: sum.splits)
  from Inr have h: "handle_response_error repr retry s = d"
    by (simp add: handle_response_error_def)
  from process_response_message [OF p] obtain m where
    m: "d ''response_message'' = Some m"
       "m = PStr default_message \<or> (\<exists>kvs. r = PDict kvs \<and> map_of kvs ''message'' = Some m)"
    by blast
  from m(2) r have "nonempty_str m \<or> (\<exists>kvs. retry = Inr (PDict kvs) \<and> map_of kvs ''message'' = Some m)"
    using default_message_nonempty by auto
  with process_response_actions [OF p] m(1) h show ?thesis by simp
qed

lemma generate_response_body_shape:
  assumes "first \<noteq> Inl CancelledError"
  shows "\<exists>d. generate_response_body repr first retry s cfg = Inr d \<and>
           d ''workflow_complete'' = Some (PBool True) \<and>
           (\<exists>acts. d ''suggested_actions'' = Some (PList acts) \<and>
                  1 \<le> length acts \<and> length acts \<le> 3) \<and>
           (\<exists>m. d ''response_message'' = Some m \<and>
               (nonempty_str m \<or>
                (\<exists>kvs. (first = Inr (PDict kvs) \<or> retry = Inr (PDict kvs)) \<and>
                       map_of kvs ''message'' = Some m)))"
proof (cases "bnd first (process_response repr)")
  case (Inr u)
  then obtain r where r: "first = Inr r" and p: "process_response repr r = Inr u"
    by (auto simp: bnd_def split: sum.splits)
  from process_response_message [OF p] obtain m where
    m: "u ''response_message'' = Some m"
       "m = PStr default_message \<or> (\<exists>kvs. r = PDict kvs \<and> map_of kvs ''message'' = Some m)"
    by blast
  from m(2) r have
    "nonempty_str m \<or>
     (\<exists>kvs. (first = Inr (PDict kvs) \<or> retry = Inr (PDict kvs)) \<and> map_of kvs ''message'' = Some m)"
    using default_message_nonempty by auto
  with process_response_actions [OF p] m(1) Inr show ?thesis
    by (simp add: generate_response_body_def)
next
  case (Inl e)
  have e: "is_Exception e"
  proof (cases first)
    case (Inl e')
    with \<open>bnd first (process_response repr) = Inl e\<close> have "e' = e" by (simp add: bnd_def)
    with Inl assms show ?thesis by (cases e) auto
  next
    case (Inr r)
    with \<open>bnd first (process_response repr) = Inl e\<close>
    have "process_response repr r = Inl e" by (simp add: bnd_def)
    then show ?thesis
      by (cases r; cases e)
         (auto simp: process_response_def bnd_def split: sum.splits if_splits pyval.splits
           elim!: first_actions.elims)
  qed
  from handle_response_error_shape [of repr retry s] obtain acts m where
    a: "handle_response_error repr retry s ''suggested_actions'' = Some (PList acts)"
       "1 \<le> length acts" "length acts \<le> 3" and
    m: "handle_response_error repr retry s ''response_message'' = Some m"
       "nonempty_str m \<or> (\<exists>kvs. retry = Inr (PDict kvs) \<and> map_of kvs ''message'' = Some m)"
    by blast
  from m(2) have
    "nonempty_str m \<or>
     (\<exists>kvs. (first = Inr (PDict kvs) \<or> retry = Inr (PDict kvs)) \<and> map_of kvs ''message'' = Some m)"
    by auto
  with a m(1) Inl e show ?thesis
    by (simp add: generate_response_body_def)
qed


lemma process_response_keys:
  "process_response repr r = Inr u \<Longrightarrow> k \<noteq> ''response_message'' \<Longrightarrow>
   k \<noteq> ''suggested_actions'' \<Longrightarrow> u k = None"
  by (auto simp: process_response_def bnd_def split: sum.splits if_splits)

lemma handle_response_error_keys:
  "k \<noteq> ''response_message'' \<Longrightarrow> k \<noteq> ''suggested_actions'' \<Longrightarrow>
   handle_response_error repr retry s k = None"
proof (cases "bnd (getitem s ''user_query'') (\<lambda>_. bnd retry (process_response repr))")
  case (Inl e)
  assume "k \<noteq> ''response_message''" "k \<noteq> ''suggested_actions''"
  with Inl show ?thesis by (simp add: handle_response_error_def ultimate_fallback_def)
next
  case (Inr u)
  assume k: "k \<noteq> ''response_message''" "k \<noteq> ''suggested_actions''"
  from Inr obtain r where "process_response repr r = Inr u"
    by (auto simp: bnd_def split: sum.splits)
  from process_response_keys [OF this k] Inr show ?thesis
    by (simp add: handle_response_error_def)
qed

lemma generate_response_body_keys:
  assumes "generate_response_body repr first retry s cfg = Inr d"
    and "k \<noteq> ''response_message''" "k \<noteq> ''suggested_actions''" "k \<noteq> ''workflow_complete''"
  shows "d k = None"
proof (cases "bnd first (process_response repr)")
  case (Inr u)
  then obtain r where "process_response repr r = Inr u"
    by (auto simp: bnd_def split: sum.splits)
  from process_response_keys [OF this assms(2,3)] Inr assms(1,4) show ?thesis
    by (auto simp: generate_response_body_def)
next
  case (Inl e)
  with assms(1) have "d = (handle_response_error repr retry s)(''workflow_complete'' \<mapsto> PBool True)"
    by (auto simp: generate_response_body_def split: if_splits)
  with handle_response_error_keys [OF assms(2,3), of repr retry s] assms(4) show ?thesis by simp
qed

text \<open>
  The node the graph registers runs the body under the two tracking wrappers; after the
  body the outer one slices the message for its record, and raises when that fails.
\<close>

lemma generate_response_node_result:
  assumes inp: "input_data s = Inr u"
    and body: "generate_response_body repr first retry s cfg = Inr d"
  shows "snd (generate_response repr first retry s cfg) =
           (case slice_if_truthy (get_none d ''response_message'') of
              Inl e \<Rightarrow> Inl e
            | Inr u \<Rightarrow> Inr d)"
proof -
  have "d ''properties'' = None" "d ''available_slots'' = None" "d ''reflection_notes'' = None"
    using body by (auto intro: generate_response_body_keys)
  then have out: "output_data d = slice_if_truthy (get_none d ''response_message'')"
    by (simp add: output_data_def get_or_def get_none_def bnd_def split: sum.split)
  show ?thesis
    using inp body
    by (simp add: generate_response_def track_node_execution_def track_workflow_execution_def
          untraced_def out split: sum.split)
qed

lemma process_response_list_actions:
  assumes "map_of kvs ''suggested_actions'' = Some (PList xs)" and "xs \<noteq> []"
  shows "process_response repr (PDict kvs) =
           Inr [''response_message'' \<mapsto>
                  (case map_of kvs ''message'' of None \<Rightarrow> PStr default_message | Some v \<Rightarrow> v),
                ''suggested_actions'' \<mapsto> PList (map (\<lambda>a. PStr (py_str repr a)) (take 3 xs))]"
  using assms by (simp add: process_response_def bnd_def)

lemma process_response_no_actions:
  assumes "map_of kvs ''suggested_actions'' = None \<or>
           (\<exists>a. map_of kvs ''suggested_actions'' = Some a \<and> \<not> truthy a)"
  shows "process_response repr (PDict kvs) =
           Inr [''response_message'' \<mapsto>
                  (case map_of kvs ''message'' of None \<Rightarrow> PStr default_message | Some v \<Rightarrow> v),
                ''suggested_actions'' \<mapsto> PList default_actions]"
  using assms by (auto simp: process_response_def bnd_def)

text \<open>
  Claim C10, as the code has it.  Take a state whose \<^verbatim>\<open>properties\<close> and
  \<^verbatim>\<open>available_slots\<close> have a length, and a first call of the response collaborator
  that is not cancelled.  The body of the terminal node then returns a delta \<open>d\<close> with
  \<^verbatim>\<open>workflow_complete = True\<close> and a \<^verbatim>\<open>suggested_actions\<close> list of 1 to 3 elements, and
  the node the graph registers returns \<open>d\<close> when the message in \<open>d\<close> is a string, a list
  or falsy, and raises the \<^verbatim>\<open>TypeError\<close> of slicing it otherwise.  When the collaborator
  returns a dict: a non-empty action list is cut to its first 3 entries, each made a
  string; a missing or falsy action list is replaced by the hardcoded default; a message
  that is present is passed through as it stands, also when it is empty or no string; a
  missing one is replaced by the hardcoded default.  When both calls of the collaborator
  raise, the delta is the hardcoded ultimate fallback.
\<close>

theorem terminal_node_delta:
  assumes "input_data s = Inr u" and "first \<noteq> Inl CancelledError"
  shows "\<exists>d. generate_response_body repr first retry s cfg = Inr d \<and>
           snd (generate_response repr first retry s cfg) =
             (case slice_if_truthy (get_none d ''response_message'') of
                Inl e \<Rightarrow> Inl e
              | Inr u \<Rightarrow> Inr d) \<and>
           d ''workflow_complete'' = Some (PBool True) \<and>
           (\<exists>acts. d ''suggested_actions'' = Some (PList acts) \<and>
                  1 \<le> length acts \<and> length acts \<le> 3) \<and>
           (\<forall>kvs xs. first = Inr (PDict kvs) \<longrightarrow>
                map_of kvs ''suggested_actions'' = Some (PList xs) \<longrightarrow> xs \<noteq> [] \<longrightarrow>
                d ''suggested_actions'' =
                  Some (PList (map (\<lambda>a. PStr (py_str repr a)) (take 3 xs))) \<and>
                d ''response_message'' =
                  Some (case map_of kvs ''message'' of
                          None \<Rightarrow> PStr default_message | Some v \<Rightarrow> v)) \<and>
           (\<forall>kvs. first = Inr (PDict kvs) \<longrightarrow>
                (map_of kvs ''suggested_actions'' = None \<or>
                 (\<exists>a. map_of kvs ''suggested_actions'' = Some a \<and> \<not> truthy a)) \<longrightarrow>
                d ''suggested_actions'' = Some (PList default_actions) \<and>
                d ''response_message'' =
                  Some (case map_of kvs ''message'' of
                          None \<Rightarrow> PStr default_message | Some v \<Rightarrow> v)) \<and>
           (\<forall>e e'. first = Inl e \<longrightarrow> retry = Inl e' \<longrightarrow>
                d = ultimate_fallback(''workflow_complete'' \<mapsto> PBool True))"
proof -
  from generate_response_body_shape [OF assms(2), of repr retry s cfg] obtain d where
    body: "generate_response_body repr first retry s cfg = Inr d"
    and flag: "d ''workflow_complete'' = Some (PBool True)"
    and acts: "\<exists>acts. d ''suggested_actions'' = Some (PList acts) \<and>
                     1 \<le> length acts \<and> length acts \<le> 3"
    by blast
  have node: "snd (generate_response repr first retry s cfg) =
                (case slice_if_truthy (get_none d ''response_message'') of
                   Inl e \<Rightarrow> Inl e
                 | Inr u \<Rightarrow> Inr d)"
    using assms(1) body by (rule generate_response_node_result)
  have lists: "d ''suggested_actions'' =
                 Some (PList (map (\<lambda>a. PStr (py_str repr a)) (take 3 xs))) \<and>
               d ''response_message'' =
                 Some (case map_of kvs ''message'' of
                         None \<Rightarrow> PStr default_message | Some v \<Rightarrow> v)"
    if "first = Inr (PDict kvs)" "map_of kvs ''suggested_actions'' = Some (PList xs)" "xs \<noteq> []"
    for kvs xs
    using body that process_response_list_actions [OF that(2,3), of repr]
    by (auto simp: generate_response_body_def bnd_def)
  have none: "d ''suggested_actions'' = Some (PList default_actions) \<and>
              d ''response_message'' =
                Some (case map_of kvs ''message'' of
                        None \<Rightarrow> PStr default_message | Some v \<Rightarrow> v)"
    if "first = Inr (PDict kvs)"
       "map_of kvs ''suggested_actions'' = None \<or>
        (\<exists>a. map_of kvs ''suggested_actions'' = Some a \<and> \<not> truthy a)"
    for kvs
    using body that(1) process_response_no_actions [OF that(2), of repr]
    by (auto simp: generate_response_body_def bnd_def)
  have fb: "d = ultimate_fallback(''workflow_complete'' \<mapsto> PBool True)"
    if "first = Inl e" "retry = Inl e'" for e e'
    using body that assms(2)
    by (cases e) (auto simp: generate_response_body_def handle_response_error_def bnd_def
                    split: sum.splits)
  have L: "\<forall>kvs xs. first = Inr (PDict kvs) \<longrightarrow>
                map_of kvs ''suggested_actions'' = Some (PList xs) \<longrightarrow> xs \<noteq> [] \<longrightarrow>
                d ''suggested_actions'' =
                  Some (PList (map (\<lambda>a. PStr (py_str repr a)) (take 3 xs))) \<and>
                d ''response_message'' =
                  Some (case map_of kvs ''message'' of
                          None \<Rightarrow> PStr default_message | Some v \<Rightarrow> v)"
    using lists by (intro allI impI)
  have N: "\<forall>kvs. first = Inr (PDict kvs) \<longrightarrow>
                (map_of kvs ''suggested_actions'' = None \<or>
                 (\<exists>a. map_of kvs ''suggested_actions'' = Some a \<and> \<not> truthy a)) \<longrightarrow>
                d ''suggested_actions'' = Some (PList default_actions) \<and>
                d ''response_message'' =
                  Some (case map_of kvs ''message'' of
                          None \<Rightarrow> PStr default_message | Some v \<Rightarrow> v)"
    using none by (intro allI impI)
  have F: "\<forall>e e'. first = Inl e \<longrightarrow> retry = Inl e' \<longrightarrow>
                d = ultimate_fallback(''workflow_complete'' \<mapsto> PBool True)"
    using fb by (intro allI impI)
  from body node flag acts L N F show ?thesis
    by - (rule exI [of _ d], intro conjI, assumption+)
qed

theorem terminal_node_delta_witness:
  "input_data [''user_query'' \<mapsto> PStr ''2 bed in Austin'', ''properties'' \<mapsto> PList []] = Inr ()
   \<and> Inr (PDict [(''message'', PStr ''Found 4 homes.''),
                 (''suggested_actions'',
                  PList [PStr ''View'', PStr ''Tour'', PStr ''Ask'', PStr ''More''])])
       \<noteq> (Inl CancelledError :: exn + pyval)
   \<and> returned_key
        (snd (generate_response (\<lambda>v. [])
                (Inr (PDict [(''message'', PStr ''Found 4 homes.''),
                             (''suggested_actions'',
                              PList [PStr ''View'', PStr ''Tour'', PStr ''Ask'', PStr ''More''])]))
                (Inl (RuntimeError ''unused''))
                [''user_query'' \<mapsto> PStr ''2 bed in Austin'', ''properties'' \<mapsto> PList []]
                NoConfig))
        ''suggested_actions''
       = Some (PList [PStr ''View'', PStr ''Tour'', PStr ''Ask''])
   \<and> returned_key
        (snd (generate_response (\<lambda>v. [])
                (Inr (PDict [(''message'', PStr ''Found 4 homes.''),
                             (''suggested_actions'',
                              PList [PStr ''View'', PStr ''Tour'', PStr ''Ask'', PStr ''More''])]))
                (Inl (RuntimeError ''unused''))
                [''user_query'' \<mapsto> PStr ''2 bed in Austin'', ''properties'' \<mapsto> PList []]
                NoConfig))
        ''response_message''
       = Some (PStr ''Found 4 homes.'')"
proof -
  let ?s = "[''user_query'' \<mapsto> PStr ''2 bed in Austin'', ''properties'' \<mapsto> PList []]"
  let ?kvs = "[(''message'', PStr ''Found 4 homes.''),
               (''suggested_actions'',
                PList [PStr ''View'', PStr ''Tour'', PStr ''Ask'', PStr ''More''])]"
  let ?first = "Inr (PDict ?kvs) :: exn + pyval"
  let ?node = "snd (generate_response (\<lambda>v. []) ?first (Inl (RuntimeError ''unused'')) ?s NoConfig)"
  have h1: "input_data ?s = Inr ()"
    by (simp add: input_data_def get_or_def bnd_def)
  have h2: "?first \<noteq> Inl CancelledError" by simp
  from terminal_node_delta [OF h1 h2, of "\<lambda>v. []" "Inl (RuntimeError ''unused'')" NoConfig]
  obtain d where d:
    "generate_response_body (\<lambda>v. []) ?first (Inl (RuntimeError ''unused'')) ?s NoConfig = Inr d \<and>
     ?node = (case slice_if_truthy (get_none d ''response_message'') of
                Inl e \<Rightarrow> Inl e | Inr u \<Rightarrow> Inr d) \<and>
     d ''workflow_complete'' = Some (PBool True) \<and>
     (\<exists>acts. d ''suggested_actions'' = Some (PList acts) \<and>
            1 \<le> length acts \<and> length acts \<le> 3) \<and>
     (\<forall>kvs xs. ?first = Inr (PDict kvs) \<longrightarrow>
          map_of kvs ''suggested_actions'' = Some (PList xs) \<longrightarrow> xs \<noteq> [] \<longrightarrow>
          d ''suggested_actions'' =
            Some (PList (map (\<lambda>a. PStr (py_str (\<lambda>v. []) a)) (take 3 xs))) \<and>
          d ''response_message'' =
            Some (case map_of kvs ''message'' of
                    None \<Rightarrow> PStr default_message | Some v \<Rightarrow> v)) \<and>
     (\<forall>kvs. ?first = Inr (PDict kvs) \<longrightarrow>
          (map_of kvs ''suggested_actions'' = None \<or>
           (\<exists>a. map_of kvs ''suggested_actions'' = Some a \<and> \<not> truthy a)) \<longrightarrow>
          d ''suggested_actions'' = Some (PList default_actions) \<and>
          d ''response_message'' =
            Some (case map_of kvs ''message'' of
                    None \<Rightarrow> PStr default_message | Some v \<Rightarrow> v)) \<and>
     (\<forall>e e'. ?first = Inl e \<longrightarrow> (Inl (RuntimeError ''unused'') :: exn + pyval) = Inl e' \<longrightarrow>
          d = ultimate_fallback(''workflow_complete'' \<mapsto> PBool True))" ..
  from d have node:
    "?node = (case slice_if_truthy (get_none d ''response_message'') of
                Inl e \<Rightarrow> Inl e | Inr u \<Rightarrow> Inr d)"
    by (rule conjunct1 [OF conjunct2])
  from d have ex:
    "\<forall>kvs xs. ?first = Inr (PDict kvs) \<longrightarrow>
          map_of kvs ''suggested_actions'' = Some (PList xs) \<longrightarrow> xs \<noteq> [] \<longrightarrow>
          d ''suggested_actions'' =
            Some (PList (map (\<lambda>a. PStr (py_str (\<lambda>v. []) a)) (take 3 xs))) \<and>
          d ''response_message'' =
            Some (case map_of kvs ''message'' of
                    None \<Rightarrow> PStr default_message | Some v \<Rightarrow> v)"
    by (rule conjunct1 [OF conjunct2 [OF conjunct2 [OF conjunct2 [OF conjunct2]]]])
  from ex [rule_format, of ?kvs "[PStr ''View'', PStr ''Tour'', PStr ''Ask'', PStr ''More'']"]
  have a: "d ''suggested_actions'' = Some (PList [PStr ''View'', PStr ''Tour'', PStr ''Ask''])"
    and m: "d ''response_message'' = Some (PStr ''Found 4 homes.'')"
    by simp_all
  from m have "slice_if_truthy (get_none d ''response_message'') = Inr ()"
    by (simp add: get_none_def get_or_def)
  with node have "?node = Inr d" by simp
  with a m have
    "returned_key ?node ''suggested_actions'' = Some (PList [PStr ''View'', PStr ''Tour'', PStr ''Ask''])"
    "returned_key ?node ''response_message'' = Some (PStr ''Found 4 homes.'')"
    by (simp_all add: returned_key_def)
  with h1 h2 show ?thesis by (intro conjI)
qed

text \<open>
  Claim C10 as stated fails for the message.  When the collaborator's response carries
  the key \<^verbatim>\<open>message\<close> with an empty string, \<^verbatim>\<open>response.get("message", default)\<close>
  returns the empty string, and the delta of the terminal node has an empty
  \<^verbatim>\<open>response_message\<close>.  When the message is the number 7, the node returns no delta: the
  tracking wrapper raises the \<^verbatim>\<open>TypeError\<close> of \<^verbatim>\<open>7[:100]\<close>.
\<close>

theorem terminal_node_empty_message:
  "snd (generate_response (\<lambda>v. [])
          (Inr (PDict [(''message'', PStr []),
                       (''suggested_actions'', PList [PStr ''Search again''])]))
          (Inl (RuntimeError ''unused'')) [''user_query'' \<mapsto> PStr ''hello''] NoConfig) =
     Inr [''response_message'' \<mapsto> PStr [],
          ''suggested_actions'' \<mapsto> PList [PStr ''Search again''],
          ''workflow_complete'' \<mapsto> PBool True]
   \<and> snd (generate_response (\<lambda>v. [])
            (Inr (PDict [(''message'', PInt 7),
                         (''suggested_actions'', PList [PStr ''Search again''])]))
            (Inl (RuntimeError ''unused'')) [''user_query'' \<mapsto> PStr ''hello''] NoConfig) =
       Inl (TypeError ''object is not subscriptable'')"
  by (simp add: generate_response_def generate_response_body_def process_response_def bnd_def
        track_node_execution_def track_workflow_execution_def untraced_def input_data_def
        output_data_def get_or_def get_none_def)

section \<open>Properties of the booking sub-flow\<close>

lemma validate_stripped_keyed:
  "validate_stripped f v \<noteq> [] \<Longrightarrow> \<exists>msg. map_of (validate_stripped f v) f = Some msg"
  by (auto simp: validate_stripped_def validate_name_def validate_email_def
      validate_phone_def validate_pets_def Let_def split: if_splits)

lemma validate_user_field_keyed:
  "validate_user_field f v = Inr errs \<Longrightarrow> errs \<noteq> [] \<Longrightarrow> \<exists>msg. map_of errs f = Some msg"
  using validate_stripped_keyed [of f]
  by (cases v) (auto split: if_splits)

lemma first_invalid_none:
  "list_all (supplied_ok ui) fs \<Longrightarrow> first_invalid ui fs = Inr None"
  by (induction fs) (auto simp: supplied_ok_def split: option.splits)

lemma first_invalid_found:
  assumes "list_all (supplied_ok ui) before"
    and "map_of ui f = Some v" and "validate_user_field f v = Inr errs" and "errs \<noteq> []"
  shows "\<exists>msg. first_invalid ui (before @ f # after) = Inr (Some (f, msg))"
  using assms(1)
proof (induction before)
  case Nil
  from validate_user_field_keyed [OF assms(3) assms(4)] obtain msg
    where "map_of errs f = Some msg" by blast
  with assms(2,3,4) show ?case by auto
next
  case (Cons g gs)
  then show ?case by (auto simp: supplied_ok_def split: option.splits)
qed

lemma next_missing_found:
  "list_all (\<lambda>g. truthy (info_get ui g)) before \<Longrightarrow> \<not> truthy (info_get ui f) \<Longrightarrow>
   find (\<lambda>field. \<not> truthy (info_get ui field)) (before @ f # after) = Some f"
  by (induction before) auto

text \<open>
  Claim C9.  In the info-collection step with action \<^verbatim>\<open>provide_info\<close>, for every
  user-info dict (its items in any order): when every supplied field passes validation,
  the step prompts for the first field of the fixed order name, email, phone, pets that
  is missing; when a supplied field fails validation (and the supplied fields before
  it in the order pass), the step asks again for that same field, flags the validation
  error, and stays in the info-collection step.
\<close>

theorem info_collection_prompt_order:
  assumes "s ''action_type'' = Some (PStr ''provide_info'')"
    and "s ''user_info'' = Some (PDict ui)"
    and "required_fields_order = before @ f # after"
  shows
    "(list_all (supplied_ok ui) required_fields_order \<and>
      list_all (\<lambda>g. truthy (info_get ui g)) before \<and> \<not> truthy (info_get ui f)
      \<longrightarrow> (\<exists>d. handle_info_collection repr now s = Inr d \<and>
               d ''current_step'' = Some (PStr ''info_collection'') \<and>
               d ''next_field'' = Some (PStr f) \<and>
               d ''info_prompt'' = Some (PStr (prompt_for_field f)) \<and>
               d ''response_message'' = Some (PStr (prompt_for_field f)) \<and>
               d ''validation_error'' = None)) \<and>
     (list_all (supplied_ok ui) before \<and> map_of ui f = Some v \<and>
      validate_user_field f v = Inr errs \<and> errs \<noteq> []
      \<longrightarrow> (\<exists>d. handle_info_collection repr now s = Inr d \<and>
               d ''current_step'' = Some (PStr ''info_collection'') \<and>
               d ''next_field'' = Some (PStr f) \<and>
               d ''info_prompt'' = Some (PStr (prompt_for_field f)) \<and>
               d ''validation_error'' = Some (PBool True)))"
proof -
  have u: "py_or (get_or s ''user_info'' (PDict [])) (PDict []) = PDict ui"
    using assms(2) by (cases ui) (simp_all add: py_or_def get_or_def)
  have a: "get_none s ''action_type'' = PStr ''provide_info''"
    using assms(1) by (simp add: get_none_def get_or_def)
  have 1: "\<exists>d. handle_info_collection repr now s = Inr d \<and>
               d ''current_step'' = Some (PStr ''info_collection'') \<and>
               d ''next_field'' = Some (PStr f) \<and>
               d ''info_prompt'' = Some (PStr (prompt_for_field f)) \<and>
               d ''response_message'' = Some (PStr (prompt_for_field f)) \<and>
               d ''validation_error'' = None"
    if h: "list_all (supplied_ok ui) required_fields_order"
          "list_all (\<lambda>g. truthy (info_get ui g)) before" "\<not> truthy (info_get ui f)"
  proof -
    have i: "first_invalid ui required_fields_order = Inr None"
      by (rule first_invalid_none [OF h(1)])
    have n: "next_missing_field ui = Some f"
      unfolding next_missing_field_def assms(3) by (rule next_missing_found [OF h(2) h(3)])
    show ?thesis
      by (simp add: handle_info_collection_def u a i n bnd_def prompt_delta_def)
  qed
  have 2: "\<exists>d. handle_info_collection repr now s = Inr d \<and>
               d ''current_step'' = Some (PStr ''info_collection'') \<and>
               d ''next_field'' = Some (PStr f) \<and>
               d ''info_prompt'' = Some (PStr (prompt_for_field f)) \<and>
               d ''validation_error'' = Some (PBool True)"
    if h: "list_all (supplied_ok ui) before" "map_of ui f = Some v"
          "validate_user_field f v = Inr errs" "errs \<noteq> []"
  proof -
    from first_invalid_found [OF h, of after] assms(3) obtain msg where
      i: "first_invalid ui required_fields_order = Inr (Some (f, msg))" by auto
    show ?thesis
      by (simp add: handle_info_collection_def u a i bnd_def validation_error_delta_def)
  qed
  from 1 2 show ?thesis by blast
qed

lemmas string_defs = py_isspace_def in_range_def ascii_alpha_def ascii_digit_def
  py_isalpha_char_def py_isdigit_char_def py_isalpha_def py_isdigit_def strip_def
  remove_chars_def email_local_char_def email_domain_char_def match_tld_def
  validate_name_def validate_email_def clean_phone_def validate_phone_def
  validate_pets_def validate_stripped_def

lemma validate_phone_example:
  "validate_user_field ''phone'' (PStr ''+1 (555) 010-9999'') = Inr []"
  by (simp add: string_defs)

lemma validate_email_example:
  "validate_user_field ''email'' (PStr ''ann@example.com'') = Inr []"
  by (simp add: string_defs)

lemma validate_name_example:
  "validate_user_field ''name'' (PStr '' Ann O'Neil-Lee '') = Inr []"
  by (simp add: string_defs)

lemma validate_bad_email_example:
  "validate_user_field ''email'' (PStr ''not-an-email'') =
     Inr [(''email'', ''Please enter a valid email address (e.g., john@example.com)'')]"
  by (simp add: string_defs)

theorem info_collection_prompt_order_witness:
  "(\<exists>d. handle_info_collection (\<lambda>v. []) ''2026-01-05T09:00:00''
          [''action_type'' \<mapsto> PStr ''provide_info'',
           ''user_info'' \<mapsto> PDict [(''phone'', PStr ''+1 (555) 010-9999''),
                                  (''email'', PStr ''ann@example.com'')]] = Inr d \<and>
        d ''next_field'' = Some (PStr ''name'') \<and>
        d ''response_message'' = Some (PStr ''What's your full name?'')) \<and>
   (\<exists>d. handle_info_collection (\<lambda>v. []) ''2026-01-05T09:00:00''
          [''action_type'' \<mapsto> PStr ''provide_info'',
           ''user_info'' \<mapsto> PDict [(''email'', PStr ''not-an-email''),
                                  (''name'', PStr '' Ann O'Neil-Lee '')]] = Inr d \<and>
        d ''next_field'' = Some (PStr ''email'') \<and>
        d ''validation_error'' = Some (PBool True))"
proof -
  let ?ui1 = "[(''phone'', PStr ''+1 (555) 010-9999''), (''email'', PStr ''ann@example.com'')]"
  let ?s1 = "[''action_type'' \<mapsto> PStr ''provide_info'', ''user_info'' \<mapsto> PDict ?ui1]"
  let ?ui2 = "[(''email'', PStr ''not-an-email''), (''name'', PStr '' Ann O'Neil-Lee '')]"
  let ?s2 = "[''action_type'' \<mapsto> PStr ''provide_info'', ''user_info'' \<mapsto> PDict ?ui2]"
  have ok1: "list_all (supplied_ok ?ui1) required_fields_order"
    by (simp add: required_fields_order_def supplied_ok_def
        validate_phone_example validate_email_example del: validate_user_field.simps)
  have miss1: "\<not> truthy (info_get ?ui1 ''name'')"
    by (simp add: info_get_def)
  have o1: "required_fields_order = [] @ ''name'' # [''email'', ''phone'', ''pets'']"
    by (simp add: required_fields_order_def)
  have p1: "prompt_for_field ''name'' = ''What's your full name?''"
    by (simp add: prompt_for_field_def)
  have a1: "?s1 ''action_type'' = Some (PStr ''provide_info'')"
    and u1: "?s1 ''user_info'' = Some (PDict ?ui1)" by simp_all
  have c1: "\<exists>d. handle_info_collection (\<lambda>v. []) ''2026-01-05T09:00:00'' ?s1 = Inr d \<and>
        d ''next_field'' = Some (PStr ''name'') \<and>
        d ''response_message'' = Some (PStr ''What's your full name?'')"
  proof -
    have b1: "list_all (\<lambda>g. truthy (info_get ?ui1 g)) []" by simp
    from info_collection_prompt_order [OF a1 u1 o1,
        where repr = "\<lambda>v. []" and now = "''2026-01-05T09:00:00''"
          and v = PNone and errs = "[]"] ok1 b1 miss1
    have "\<exists>d. handle_info_collection (\<lambda>v. []) ''2026-01-05T09:00:00'' ?s1 = Inr d \<and>
        d ''next_field'' = Some (PStr ''name'') \<and>
        d ''response_message'' = Some (PStr (prompt_for_field ''name''))"
      by blast
    then show ?thesis by (simp only: p1)
  qed
  have ok2: "list_all (supplied_ok ?ui2) [''name'']"
    by (simp add: supplied_ok_def validate_name_example del: validate_user_field.simps)
  have o2: "required_fields_order = [''name''] @ ''email'' # [''phone'', ''pets'']"
    by (simp add: required_fields_order_def)
  have a2: "?s2 ''action_type'' = Some (PStr ''provide_info'')"
    and u2: "?s2 ''user_info'' = Some (PDict ?ui2)" by simp_all
  have m2: "map_of ?ui2 ''email'' = Some (PStr ''not-an-email'')" by simp
  have c2: "\<exists>d. handle_info_collection (\<lambda>v. []) ''2026-01-05T09:00:00'' ?s2 = Inr d \<and>
        d ''next_field'' = Some (PStr ''email'') \<and>
        d ''validation_error'' = Some (PBool True)"
    using info_collection_prompt_order [OF a2 u2 o2,
        where repr = "\<lambda>v. []" and now = "''2026-01-05T09:00:00''"
          and v = "PStr ''not-an-email''"
          and errs = "[(''email'', ''Please enter a valid email address (e.g., john@example.com)'')]"]
      ok2 m2 validate_bad_email_example
    by blast
  from c1 c2 show ?thesis by blast
qed

section \<open>The search node: what it returns and what it writes\<close>

lemma returns_arg_simps:
  "returns_arg (s, Inl e)" "returns_arg (s, Inr d) = (d = s)"
  "returns_arg (update_and_return s upd)"
  by (simp_all add: returns_arg_def update_and_return_def)

lemma search_with_criteria_returns_arg: "returns_arg (search_with_criteria env s q c l)"
  unfolding search_with_criteria_def Let_def
  by (simp add: returns_arg_simps split: sum.split prod.split)

lemma search_checked_returns_arg: "returns_arg (search_checked env s q c x)"
  unfolding search_checked_def Let_def
  by (simp add: returns_arg_simps search_with_criteria_returns_arg split: sum.split option.split)

lemma search_properties_run_returns_arg: "returns_arg (search_properties_run env s)"
  unfolding search_properties_run_def
  by (simp add: returns_arg_simps search_checked_returns_arg split: sum.split prod.split)

lemma update_and_return_frame: "upd k = None \<Longrightarrow> fst (update_and_return s upd) k = s k"
  by (simp add: update_and_return_def merge_def)

lemma search_with_criteria_frame:
  "k \<noteq> ''properties'' \<Longrightarrow> k \<noteq> ''search_filters'' \<Longrightarrow> k \<noteq> ''fallback_context'' \<Longrightarrow>
   fst (search_with_criteria env s q c l) k = s k"
  unfolding search_with_criteria_def Let_def
  by (simp add: update_and_return_frame merge_def split: sum.split prod.split)

lemma search_checked_frame:
  "k \<noteq> ''properties'' \<Longrightarrow> k \<noteq> ''search_filters'' \<Longrightarrow> k \<noteq> ''fallback_context'' \<Longrightarrow>
   fst (search_checked env s q c x) k = s k"
  unfolding search_checked_def Let_def
  by (simp add: update_and_return_frame search_with_criteria_frame split: sum.split option.split)

lemma search_properties_run_frame:
  "k \<noteq> ''properties'' \<Longrightarrow> k \<noteq> ''search_filters'' \<Longrightarrow> k \<noteq> ''fallback_context'' \<Longrightarrow>
   fst (search_properties_run env s) k = s k"
  unfolding search_properties_run_def
  by (simp add: search_checked_frame split: sum.split prod.split)



lemma merge_unchanged: "d k = None \<or> d k = s k \<Longrightarrow> merge s d k = s k"
  by (auto simp: merge_def split: option.split)


text \<open>
  Claim C3.  The search node does not leave its argument alone and does not return a
  partial dict.  On a first search turn (a state holding, among others, the query, the
  user identifier and an empty result list; one listing found) the call leaves the dict
  it was given with the listing under \<^verbatim>\<open>properties\<close>, and what the decorated node hands
  to the graph is that whole dict: it carries \<^verbatim>\<open>user_query\<close>, \<^verbatim>\<open>user_id\<close> and
  \<^verbatim>\<open>intent\<close>, which the node never set.  The reflect node on the same state returns a
  delta without the query.
\<close>

theorem search_node_mutates_and_returns_whole_state:
  "example_search_state ''properties'' = Some (PList [])
   \<and> fst (search_properties_run example_search_env example_search_state) ''properties''
       = Some (PList [example_listing])
   \<and> returns_arg (search_properties_run example_search_env example_search_state)
   \<and> snd (search_properties example_search_env example_search_state NoConfig)
       = Inr (fst (search_properties_run example_search_env example_search_state))
   \<and> returned_key (snd (search_properties example_search_env example_search_state NoConfig))
        ''user_query'' = Some (PStr ''2 bed in Austin'')
   \<and> returned_key (snd (search_properties example_search_env example_search_state NoConfig))
        ''user_id'' = Some (PStr ''u1'')
   \<and> returned_key (snd (search_properties example_search_env example_search_state NoConfig))
        ''intent'' = Some (PStr ''property_search'')
   \<and> returned_key (snd (reflect example_search_state NoConfig)) ''user_query'' = None"
proof -
  have run: "search_properties_run example_search_env example_search_state
             = update_and_return example_search_state
                 [''properties'' \<mapsto> PList [example_listing],
                  ''search_filters'' \<mapsto>
                    PDict [(''address'', PStr ''Austin''), (''bedrooms'', PInt 2)]]"
    by (simp add: search_properties_run_def search_checked_def search_with_criteria_def
          update_and_return_def example_search_env_def example_search_state_def
          example_listing_def bnd_def get_or_def get_none_def py_or_def py_get_def
          not_blank_def crit_get_def Let_def)
  have node: "snd (search_properties example_search_env example_search_state NoConfig)
              = snd (search_properties_run example_search_env example_search_state)"
    unfolding search_properties_def search_properties_body_def track_node_execution_def
      error_handler_def track_workflow_execution_def untraced_def run
    by (simp add: update_and_return_def input_data_def output_data_def bnd_def get_or_def
          get_none_def merge_def example_search_state_def)
  have refl: "returned_key (snd (reflect example_search_state NoConfig)) ''user_query'' = None"
    by (simp add: reflect_def reflect_body_def track_node_execution_def error_handler_def
          track_workflow_execution_def untraced_def input_data_def output_data_def bnd_def
          get_or_def get_none_def py_or_def py_get_def example_search_state_def
          returned_key_def Let_def py_lt_int)
  have p0: "example_search_state ''properties'' = Some (PList [])"
    by (simp add: example_search_state_def)
  have p1: "fst (search_properties_run example_search_env example_search_state) ''properties''
            = Some (PList [example_listing])"
    unfolding run by (simp add: update_and_return_def merge_def)
  have p2: "returns_arg (search_properties_run example_search_env example_search_state)"
    by (rule search_properties_run_returns_arg)
  have p3: "snd (search_properties example_search_env example_search_state NoConfig)
            = Inr (fst (search_properties_run example_search_env example_search_state))"
    unfolding node run by (simp add: update_and_return_def)
  have key: "returned_key (snd (search_properties example_search_env example_search_state NoConfig)) k
             = merge example_search_state
                 [''properties'' \<mapsto> PList [example_listing],
                  ''search_filters'' \<mapsto>
                    PDict [(''address'', PStr ''Austin''), (''bedrooms'', PInt 2)]] k" for k
    unfolding node run by (simp add: update_and_return_def returned_key_def)
  have p4: "returned_key (snd (search_properties example_search_env example_search_state NoConfig))
              ''user_query'' = Some (PStr ''2 bed in Austin'')"
    unfolding key by (simp add: merge_def example_search_state_def)
  have p5: "returned_key (snd (search_properties example_search_env example_search_state NoConfig))
              ''user_id'' = Some (PStr ''u1'')"
    unfolding key by (simp add: merge_def example_search_state_def)
  have p6: "returned_key (snd (search_properties example_search_env example_search_state NoConfig))
              ''intent'' = Some (PStr ''property_search'')"
    unfolding key by (simp add: merge_def example_search_state_def)
  from p0 p1 p2 p3 p4 p5 p6 refl show ?thesis by (intro conjI)
qed



section \<open>The reflection loop is bounded\<close>

lemma decorated_cases:
  "case snd (track_node_execution n
               (error_handler (track_workflow_execution m (untraced body))) s cfg) of
     Inl e \<Rightarrow> True
   | Inr d \<Rightarrow> body s cfg = Inr d \<or> (\<exists>e. body s cfg = Inl e \<and> d = [''error'' \<mapsto> PStr (str_exn e)])"
  unfolding track_node_execution_def error_handler_def track_workflow_execution_def untraced_def
  by (simp split: sum.split prod.split)

lemma search_with_criteria_typed:
  "absent_or_list (s ''properties'') \<Longrightarrow> absent_or_dict (s ''fallback_context'') \<Longrightarrow>
   absent_or_list (fst (search_with_criteria env s q c l) ''properties'') \<and>
   absent_or_dict (fst (search_with_criteria env s q c l) ''fallback_context'')"
  unfolding search_with_criteria_def Let_def
  by (simp add: update_and_return_def merge_def no_properties_context_def
        split: sum.split prod.split)

lemma search_checked_typed:
  "absent_or_list (s ''properties'') \<Longrightarrow> absent_or_dict (s ''fallback_context'') \<Longrightarrow>
   absent_or_list (fst (search_checked env s q c x) ''properties'') \<and>
   absent_or_dict (fst (search_checked env s q c x) ''fallback_context'')"
  unfolding search_checked_def Let_def
  by (simp add: update_and_return_def merge_def no_properties_context_def
        need_criteria_context_def non_property_context_def search_with_criteria_typed
        split: sum.split option.split)

lemma search_properties_run_typed:
  "absent_or_list (s ''properties'') \<Longrightarrow> absent_or_dict (s ''fallback_context'') \<Longrightarrow>
   absent_or_list (fst (search_properties_run env s) ''properties'') \<and>
   absent_or_dict (fst (search_properties_run env s) ''fallback_context'')"
  unfolding search_properties_run_def
  by (simp add: search_checked_typed split: sum.split prod.split)

lemma merge_typed:
  "absent_or_list (s k) \<Longrightarrow> absent_or_list (d k) \<Longrightarrow> absent_or_list (merge s d k)"
  "absent_or_dict (s k) \<Longrightarrow> absent_or_dict (d k) \<Longrightarrow> absent_or_dict (merge s d k)"
  by (auto simp: merge_def split: option.split)

text \<open>Merging what the search node returns keeps the state between two rounds.\<close>

lemma search_node_keeps_inv:
  assumes inv: "loop_inv L c s"
    and res: "snd (search_properties env s cfg) = Inr d"
  shows "loop_inv L c (merge s d)"
proof -
  from decorated_cases [where n = "''search_properties''" and m = "''search_properties''"
         and body = "search_properties_body env" and s = s and cfg = cfg] res
  have "search_properties_body env s cfg = Inr d \<or>
        (\<exists>e. search_properties_body env s cfg = Inl e \<and> d = [''error'' \<mapsto> PStr (str_exn e)])"
    unfolding search_properties_def by simp
  then show ?thesis
  proof
    assume "search_properties_body env s cfg = Inr d"
    then have r: "snd (search_properties_run env s) = Inr d"
      by (simp add: search_properties_body_def)
    with search_properties_run_returns_arg [of env s]
    have d: "d = fst (search_properties_run env s)" by (simp add: returns_arg_def)
    have c: "d ''reflection_loops'' = s ''reflection_loops''"
      unfolding d by (rule search_properties_run_frame) simp_all
    from inv have t: "absent_or_list (d ''properties'') \<and> absent_or_dict (d ''fallback_context'')"
      unfolding d loop_inv_def by (simp add: search_properties_run_typed)
    from c have "merge s d ''reflection_loops'' = s ''reflection_loops''"
      by (simp add: merge_unchanged)
    with inv t show ?thesis
      unfolding loop_inv_def by (simp add: merge_typed)
  next
    assume "\<exists>e. search_properties_body env s cfg = Inl e \<and> d = [''error'' \<mapsto> PStr (str_exn e)]"
    then obtain e where "d = [''error'' \<mapsto> PStr (str_exn e)]" by blast
    with inv show ?thesis by (simp add: loop_inv_def merge_def)
  qed
qed


lemma get_or_list:
  "absent_or_list (s k) \<Longrightarrow> \<exists>xs. get_or s k (PList d) = PList xs"
  by (cases "s k" rule: absent_or_list.cases) (auto simp: get_or_def)

text \<open>
  Between two rounds the reflect node does not raise; it either finalises, leaving the
  count alone, or asks for another search, which it does only below the ceiling and
  together with the increment.
\<close>

lemma reflect_body_under_inv:
  assumes inv: "loop_inv L c s"
    and ceiling: "(if config_truthy cfg then config_getattr cfg ''max_research_loops'' (PInt 1)
                   else PInt 1) = PInt L"
  shows "case reflect_body s cfg of
           Inl e \<Rightarrow> False
         | Inr d \<Rightarrow>
             d ''properties'' = None \<and> d ''fallback_context'' = None \<and>
             ((d ''reflection_loops'' = None \<and>
               d ''next_step'' = Some (PStr ''generate_response'')) \<or>
              (c < L \<and> d ''reflection_loops'' = Some (PInt (c + 1)) \<and>
               d ''next_step'' = Some (PStr ''search_properties'')))"
proof -
  from inv obtain kvs where fc: "get_or s ''fallback_context'' (PDict []) = PDict kvs"
    using get_or_dict [of s "''fallback_context''" "[]"] by (auto simp: loop_inv_def)
  from inv obtain ps where props: "get_or s ''properties'' (PList []) = PList ps"
    using get_or_list [of s "''properties''" "[]"] by (auto simp: loop_inv_def)
  from inv have cnt: "get_or s ''reflection_loops'' (PInt 0) = PInt c"
    by (simp add: get_or_def loop_inv_def)
  show ?thesis
    unfolding reflect_body_def Let_def fc props cnt ceiling
    by (simp add: bnd_def py_get_def py_or_def py_lt_int)
qed

lemma route_after_reflect_finalises:
  "s ''next_step'' = Some (PStr ''generate_response'') \<Longrightarrow>
   route_after_reflect s \<noteq> Inr ''search_properties''"
  unfolding route_after_reflect_def bnd_def
  by (simp add: get_or_def split: sum.split)

lemma reflect_round_ok:
  assumes inv: "loop_inv L c s"
    and ceiling: "(if config_truthy cfg then config_getattr cfg ''max_research_loops'' (PInt 1)
                   else PInt 1) = PInt L"
  shows "list_all (loops_within L) (fst (reflect_round cfg s)) \<and>
         round_ok L c (snd (reflect_round cfg s))"
proof (cases "snd (reflect s cfg)")
  case (Inl e)
  then show ?thesis by (simp add: reflect_round_def)
next
  case (Inr d)
  from decorated_cases [where n = "''reflect''" and m = "''reflect''" and body = reflect_body
         and s = s and cfg = cfg] Inr
  have "reflect_body s cfg = Inr d \<or>
        (\<exists>e. reflect_body s cfg = Inl e \<and> d = [''error'' \<mapsto> PStr (str_exn e)])"
    unfolding reflect_def by simp
  moreover from reflect_body_under_inv [OF inv ceiling]
  have nr: "reflect_body s cfg \<noteq> Inl e" for e by (auto split: sum.splits)
  ultimately have body: "reflect_body s cfg = Inr d" by blast
  with reflect_body_under_inv [OF inv ceiling]
  have keys: "d ''properties'' = None" "d ''fallback_context'' = None"
    and alt: "(d ''reflection_loops'' = None \<and>
               d ''next_step'' = Some (PStr ''generate_response'')) \<or>
              (c < L \<and> d ''reflection_loops'' = Some (PInt (c + 1)) \<and>
               d ''next_step'' = Some (PStr ''search_properties''))"
    by simp_all
  from inv keys have typed:
    "absent_or_list (merge s d ''properties'')" "absent_or_dict (merge s d ''fallback_context'')"
    by (simp_all add: loop_inv_def merge_def)
  from alt show ?thesis
  proof
    assume a: "d ''reflection_loops'' = None \<and> d ''next_step'' = Some (PStr ''generate_response'')"
    with inv have w: "loops_within L (merge s d)"
      by (simp add: loops_within_def loop_inv_def merge_def)
    from a have "merge s d ''next_step'' = Some (PStr ''generate_response'')"
      by (simp add: merge_def)
    then have "route_after_reflect (merge s d) \<noteq> Inr ''search_properties''"
      by (rule route_after_reflect_finalises)
    with Inr w show ?thesis
      by (simp add: reflect_round_def split: sum.split)
  next
    assume b: "c < L \<and> d ''reflection_loops'' = Some (PInt (c + 1)) \<and>
               d ''next_step'' = Some (PStr ''search_properties'')"
    with typed have i: "loop_inv L (c + 1) (merge s d)"
      by (simp add: loop_inv_def merge_def)
    then have w: "loops_within L (merge s d)"
      by (simp add: loops_within_def loop_inv_def)
    from Inr w i b show ?thesis
      by (simp add: reflect_round_def split: sum.split)
  qed
qed

lemma search_round_ok:
  assumes inv: "loop_inv L c s"
    and ceiling: "(if config_truthy cfg then config_getattr cfg ''max_research_loops'' (PInt 1)
                   else PInt 1) = PInt L"
  shows "list_all (loops_within L) (fst (search_round env cfg s)) \<and>
         round_ok L c (snd (search_round env cfg s))"
proof (cases "snd (search_properties env s cfg)")
  case (Inl e)
  then show ?thesis by (simp add: search_round_def)
next
  case (Inr d)
  with inv have i: "loop_inv L c (merge s d)" by (rule search_node_keeps_inv)
  then have w: "loops_within L (merge s d)"
    by (simp add: loops_within_def loop_inv_def)
  from reflect_round_ok [OF i ceiling] Inr w show ?thesis
    by (simp add: search_round_def split: sum.split)
qed

lemma search_branch_bounded:
  assumes ceiling: "(if config_truthy cfg then config_getattr cfg ''max_research_loops'' (PInt 1)
                     else PInt 1) = PInt L"
  shows "loop_inv L c s \<Longrightarrow> nat (L - c) < fuel \<Longrightarrow>
         branch_ok L (int n + (L - c) + 1) (search_branch fuel envs cfg n s)"
proof (induction fuel arbitrary: n c s)
  case 0
  then show ?case by simp
next
  case (Suc fuel)
  from Suc.prems(1) have cL: "c \<le> L" by (simp add: loop_inv_def)
  obtain tr e where r: "search_round (envs n) cfg s = (tr, e)" by (cases "search_round (envs n) cfg s")
  from search_round_ok [OF Suc.prems(1) ceiling, of "envs n"] r
  have tr: "list_all (loops_within L) tr" and e: "round_ok L c e" by simp_all
  show ?case
  proof (cases e)
    case (Raised x)
    with r tr cL show ?thesis by (simp add: branch_ok_def)
  next
    case (Finish s')
    with r tr cL show ?thesis by (simp add: branch_ok_def)
  next
    case (Loop s')
    with e have lt: "c < L" and i: "loop_inv L (c + 1) s'" by simp_all
    from lt Suc.prems(2) have f: "nat (L - (c + 1)) < fuel" by arith
    from Suc.IH [OF i f, of "Suc n"]
    have "branch_ok L (int (Suc n) + (L - (c + 1)) + 1) (search_branch fuel envs cfg (Suc n) s')" .
    with r Loop tr show ?thesis
      by (auto simp: branch_ok_def split: option.splits)
  qed
qed

text \<open>
  Claim C8.  Take the branch from a state with a reflection loop count of 0, a result
  list and a fallback context of their declared types, under a configuration from which
  the reflect node reads the ceiling \<open>L\<close>, \<open>0 \<le> L\<close>.  Whatever the collaborators answer at
  each search, the branch ends (any fuel above \<open>L\<close> suffices), every state it goes through
  has a reflection loop count of at most \<open>L\<close>, and the search node is called at most
  \<open>L + 1\<close> times.
\<close>

theorem reflection_loops_bounded:
  assumes "s ''reflection_loops'' = Some (PInt 0)"
    and "absent_or_list (s ''properties'')"
    and "absent_or_dict (s ''fallback_context'')"
    and "(if config_truthy cfg then config_getattr cfg ''max_research_loops'' (PInt 1)
          else PInt 1) = PInt L"
    and "0 \<le> L"
    and "nat L < fuel"
  shows "run_within L (search_branch fuel envs cfg 0 s)"
proof -
  from assms(1,2,3,5) have "loop_inv L 0 s" by (simp add: loop_inv_def)
  from search_branch_bounded [OF assms(4) this, of fuel 0 envs] assms(6)
  show ?thesis by (simp add: run_within_def branch_ok_def)
qed

theorem reflection_loops_bounded_witness:
  "turn_state ''reflection_loops'' = Some (PInt 0)
   \<and> absent_or_list (turn_state ''properties'')
   \<and> absent_or_dict (turn_state ''fallback_context'')
   \<and> (if config_truthy endpoint_config
        then config_getattr endpoint_config ''max_research_loops'' (PInt 1)
        else PInt 1) = PInt 1
   \<and> run_within 1 (search_branch 10 (\<lambda>n. nothing_found_env) endpoint_config 0 turn_state)"
proof -
  have h1: "turn_state ''reflection_loops'' = Some (PInt 0)"
    by (simp add: turn_state_def)
  have h2: "absent_or_list (turn_state ''properties'')"
    by (simp add: turn_state_def)
  have h3: "absent_or_dict (turn_state ''fallback_context'')"
    by (simp add: turn_state_def)
  have h4: "(if config_truthy endpoint_config
             then config_getattr endpoint_config ''max_research_loops'' (PInt 1)
             else PInt 1) = PInt 1"
    by (simp add: endpoint_config_def)
  have h5: "(0::int) \<le> 1" by simp
  have h6: "nat 1 < (10::nat)" by simp
  have r: "run_within 1 (search_branch 10 (\<lambda>n. nothing_found_env) endpoint_config 0 turn_state)"
    using h1 h2 h3 h4 h5 h6
    by (rule reflection_loops_bounded
          [where s = turn_state and cfg = endpoint_config and L = 1 and fuel = 10])
  from h1 h2 h3 h4 r show ?thesis by (intro conjI)
qed

section \<open>The search iteration count\<close>







section \<open>The final state of a turn\<close>

lemma nonempty_str_truthy: "nonempty_str m \<Longrightarrow> truthy m"
  by (cases m) simp_all

lemma short_nonempty_list_truthy: "short_nonempty_list a \<Longrightarrow> truthy a"
  by (cases a) auto

lemma timed_out_turn:
  "\<not> is_booking_action (rq_action_type request) \<Longrightarrow>
   turn_complete (chat_endpoint repr now env pb TimedOut request recent_messages prior_filters)"
  by (simp add: chat_endpoint_def final_state_def Let_def bnd_def turn_complete_def
        terminal_shape_def merge_def timeout_updates_def initial_state_def get_none_def
        get_or_def response_text_def response_actions_def updates_get_def py_or_def)

lemma failed_turn:
  "\<not> is_booking_action (rq_action_type request) \<Longrightarrow> is_Exception e \<Longrightarrow>
   turn_complete (chat_endpoint repr now env pb (Failed e) request recent_messages prior_filters)"
  by (simp add: chat_endpoint_def final_state_def Let_def bnd_def turn_complete_def
        terminal_shape_def merge_def failure_updates_def initial_state_def get_none_def
        get_or_def response_text_def response_actions_def updates_get_def py_or_def)

lemma completed_turn:
  assumes nb: "\<not> is_booking_action (rq_action_type request)"
    and shape: "terminal_shape gs"
    and len: "py_len (get_or gs ''properties'' (PList [])) = Inr n"
  shows "turn_complete
           (chat_endpoint repr now env pb (Completed gs) request recent_messages prior_filters)"
proof -
  define fs where
    "fs = (if truthy (get_none gs ''workflow_complete'') \<and>
              truthy (get_none gs ''appointment_details'')
           then merge gs (post_booking_updates pb) else gs)"
  have keep: "fs ''response_message'' = gs ''response_message''"
    "fs ''suggested_actions'' = gs ''suggested_actions''"
    "fs ''workflow_complete'' = gs ''workflow_complete''"
    "fs ''properties'' = gs ''properties''"
    by (simp_all add: fs_def merge_def post_booking_updates_def)
  from nb have f: "final_state repr now env pb (Completed gs) request recent_messages prior_filters
                   = Inr (fs, None)"
    by (simp add: final_state_def Let_def bnd_def fs_def)
  from len keep(4) have len': "py_len (get_or fs ''properties'' (PList [])) = Inr n"
    by (simp add: get_or_def)
  from shape keep have sh: "terminal_shape fs"
    by (simp add: terminal_shape_def get_none_def get_or_def)
  then have "truthy (get_none fs ''response_message'')"
    "truthy (get_none fs ''suggested_actions'')"
    by (simp_all add: terminal_shape_def nonempty_str_truthy short_nonempty_list_truthy)
  then have out: "response_text fs None = get_none fs ''response_message''"
    "response_actions fs None = get_none fs ''suggested_actions''"
    by (simp_all add: response_text_def response_actions_def py_or_def)
  show ?thesis
    unfolding chat_endpoint_def f
    by (simp add: bnd_def len' out sh turn_complete_def)
qed

text \<open>
  A run of the graph ends with the terminal node: \<^verbatim>\<open>generate_response\<close> has the single
  edge to \<^verbatim>\<open>END\<close> and every router leads to it.  Where the node returns, the state had
  a result list with a length, and the delta carries the flag, one to three actions and
  the message; the message is a non-empty string when the collaborator's is.
\<close>

lemma terminal_node_returns:
  assumes "snd (generate_response repr first retry s cfg) = Inr d"
  shows "generate_response_body repr first retry s cfg = Inr d"
    and "\<exists>n. py_len (get_or s ''properties'' (PList [])) = Inr n"
proof -
  from assms obtain u where inp: "input_data s = Inr u"
    by (cases "input_data s")
       (simp_all add: generate_response_def track_node_execution_def)
  then show "\<exists>n. py_len (get_or s ''properties'' (PList [])) = Inr n"
    by (cases "py_len (get_or s ''properties'' (PList []))")
       (simp_all add: input_data_def bnd_def)
  show "generate_response_body repr first retry s cfg = Inr d"
  proof (cases "generate_response_body repr first retry s cfg")
    case (Inl e)
    with inp assms show ?thesis
      by (simp add: generate_response_def track_node_execution_def
            track_workflow_execution_def untraced_def split: if_splits)
  next
    case (Inr d')
    from generate_response_node_result [OF inp Inr] assms have "d' = d"
      by (simp split: sum.splits)
    with Inr show ?thesis by simp
  qed
qed

lemma terminal_node_shape:
  assumes node: "snd (generate_response repr first retry s cfg) = Inr d"
    and ok: "message_ok first" "message_ok retry"
  shows "terminal_shape (merge s d)"
    and "\<exists>n. py_len (get_or (merge s d) ''properties'' (PList [])) = Inr n"
proof -
  from terminal_node_returns [OF node]
  have body: "generate_response_body repr first retry s cfg = Inr d"
    and len: "\<exists>n. py_len (get_or s ''properties'' (PList [])) = Inr n"
    by simp_all
  from body have nc: "first \<noteq> Inl CancelledError"
    by (auto simp: generate_response_body_def bnd_def)
  from generate_response_body_shape [OF nc, of repr retry s cfg] body obtain acts m where
    flag: "d ''workflow_complete'' = Some (PBool True)"
    and acts: "d ''suggested_actions'' = Some (PList acts)" "1 \<le> length acts" "length acts \<le> 3"
    and m: "d ''response_message'' = Some m"
       "nonempty_str m \<or>
        (\<exists>kvs. (first = Inr (PDict kvs) \<or> retry = Inr (PDict kvs)) \<and>
               map_of kvs ''message'' = Some m)"
    by auto
  from m(2) ok have "nonempty_str m"
    by (auto simp: message_ok_def)
  with flag acts m(1) show "terminal_shape (merge s d)"
    by (simp add: terminal_shape_def merge_def get_none_def get_or_def)
  have "d ''properties'' = None"
    using body by (rule generate_response_body_keys) simp_all
  then have "get_or (merge s d) ''properties'' (PList []) = get_or s ''properties'' (PList [])"
    by (simp add: get_or_def merge_def)
  with len show "\<exists>n. py_len (get_or (merge s d) ''properties'' (PList [])) = Inr n" by simp
qed

lemma completed_run_turn:
  assumes nb: "\<not> is_booking_action (rq_action_type request)"
    and node: "snd (generate_response repr first retry s cfg) = Inr d"
    and ok: "message_ok first" "message_ok retry"
  shows "turn_complete
           (chat_endpoint repr now env pb (Completed (merge s d)) request recent_messages
              prior_filters)"
proof -
  from terminal_node_shape [OF node ok] obtain n where
    "terminal_shape (merge s d)"
    "py_len (get_or (merge s d) ''properties'' (PList [])) = Inr n"
    by blast
  with nb show ?thesis by (rule completed_turn)
qed

text \<open>
  Claim C5, as the code has it.  Take a turn that runs the graph (its action type is none
  of the five booking actions).  If the run times out, or raises an exception, or ends
  with the terminal node returning its delta for a collaborator whose message, where
  there is one, is a non-empty string (whatever state reaches the terminal node: after a
  node failure turned into an \<^verbatim>\<open>error\<close> field, after the loop guard, or directly), then
  the endpoint answers, from a final state with a non-empty response message, one to
  three suggested actions and the terminal flag set, and sends that message and those
  actions.
\<close>

theorem workflow_failure_final_state:
  assumes "\<not> is_booking_action (rq_action_type request)"
    and "outcome = TimedOut \<or> (outcome = Failed e \<and> is_Exception e) \<or>
         (outcome = Completed (merge s d) \<and>
          snd (generate_response repr first retry s cfg) = Inr d \<and>
          message_ok first \<and> message_ok retry)"
  shows "turn_complete
           (chat_endpoint repr now env pb outcome request recent_messages prior_filters)"
  using assms timed_out_turn [of request repr now env pb recent_messages prior_filters]
    failed_turn [of request e repr now env pb recent_messages prior_filters]
    completed_run_turn [of request repr first retry s cfg d now env pb recent_messages
      prior_filters]
  by blast

lemma found_delta_returned:
  "snd (generate_response (\<lambda>v. []) found_reply (Inl (RuntimeError ''unused'')) turn_state
          NoConfig) = Inr found_delta"
  by (simp add: generate_response_def generate_response_body_def process_response_def bnd_def
        track_node_execution_def track_workflow_execution_def untraced_def input_data_def
        output_data_def get_or_def get_none_def found_reply_def found_delta_def turn_state_def)

lemma empty_delta_returned:
  "snd (generate_response (\<lambda>v. []) empty_reply (Inl (RuntimeError ''unused'')) turn_state
          NoConfig) = Inr empty_delta"
  by (simp add: generate_response_def generate_response_body_def process_response_def bnd_def
        track_node_execution_def track_workflow_execution_def untraced_def input_data_def
        output_data_def get_or_def get_none_def empty_reply_def empty_delta_def turn_state_def)

theorem workflow_failure_final_state_witness:
  "\<not> is_booking_action (rq_action_type plain_request)
   \<and> is_Exception (RuntimeError ''boom'')
   \<and> snd (generate_response (\<lambda>v. []) found_reply (Inl (RuntimeError ''unused'')) turn_state
            NoConfig) = Inr found_delta
   \<and> message_ok found_reply \<and> message_ok (Inl (RuntimeError ''unused''))
   \<and> turn_complete (chat_endpoint (\<lambda>v. []) [] quiet_env no_post_booking TimedOut
                      plain_request (PList []) PNone)
   \<and> turn_complete (chat_endpoint (\<lambda>v. []) [] quiet_env no_post_booking
                      (Failed (RuntimeError ''boom'')) plain_request (PList []) PNone)
   \<and> turn_complete (chat_endpoint (\<lambda>v. []) [] quiet_env no_post_booking
                      (Completed (merge turn_state found_delta)) plain_request (PList [])
                      PNone)"
proof -
  have nb: "\<not> is_booking_action (rq_action_type plain_request)"
    by (simp add: is_booking_action_def booking_action_types_def plain_request_def)
  have ex: "is_Exception (RuntimeError ''boom'')" by simp
  note node = found_delta_returned
  have ok1: "message_ok found_reply" by (simp add: message_ok_def found_reply_def)
  have ok2: "message_ok (Inl (RuntimeError ''unused''))" by (simp add: message_ok_def)
  have a: "turn_complete (chat_endpoint (\<lambda>v. []) [] quiet_env no_post_booking TimedOut
                            plain_request (PList []) PNone)"
    using nb
    by (rule workflow_failure_final_state
          [where outcome = TimedOut and e = "RuntimeError ''boom''" and s = turn_state
             and d = found_delta and first = found_reply
             and retry = "Inl (RuntimeError ''unused'')" and cfg = NoConfig])
       simp
  have b: "turn_complete (chat_endpoint (\<lambda>v. []) [] quiet_env no_post_booking
                            (Failed (RuntimeError ''boom'')) plain_request (PList []) PNone)"
    using nb
    by (rule workflow_failure_final_state
          [where outcome = "Failed (RuntimeError ''boom'')" and e = "RuntimeError ''boom''"
             and s = turn_state and d = found_delta and first = found_reply
             and retry = "Inl (RuntimeError ''unused'')" and cfg = NoConfig])
       simp
  have c: "turn_complete (chat_endpoint (\<lambda>v. []) [] quiet_env no_post_booking
                            (Completed (merge turn_state found_delta)) plain_request (PList [])
                            PNone)"
    using nb
    by (rule workflow_failure_final_state
          [where outcome = "Completed (merge turn_state found_delta)"
             and e = "RuntimeError ''boom''" and s = turn_state and d = found_delta
             and first = found_reply and retry = "Inl (RuntimeError ''unused'')"
             and cfg = NoConfig and repr = "\<lambda>v. []"])
       (simp add: node ok1 ok2)
  from nb ex node ok1 ok2 a b c show ?thesis by (intro conjI)
qed

text \<open>
  Claim C5 as stated fails on the booking path and for an empty message.  A
  \<^verbatim>\<open>cancel_booking\<close> turn answers from a final state whose terminal flag is \<^verbatim>\<open>False\<close>; a
  \<^verbatim>\<open>book_schedule\<close> turn without a property answers from a final state with no
  suggested action and the terminal flag \<^verbatim>\<open>False\<close>; a \<^verbatim>\<open>provide_info\<close> turn whose name
  is the number 5 ends in the \<^verbatim>\<open>HTTPException\<close> of the outer handler; and a run that
  completes with a collaborator message \<^verbatim>\<open>""\<close> gives a final state with an empty response
  message, for which the endpoint sends its own fallback text.
\<close>

theorem final_state_not_terminal:
  "(case chat_endpoint (\<lambda>v. []) [] quiet_env no_post_booking TimedOut cancel_request
           (PList []) PNone of
      Responded fs response actions \<Rightarrow>
        fs ''workflow_complete'' = Some (PBool False) \<and> \<not> terminal_shape fs
    | HTTP500 e \<Rightarrow> False
    | Propagated e \<Rightarrow> False)
   \<and> (case chat_endpoint (\<lambda>v. []) [] quiet_env no_post_booking TimedOut book_request
              (PList []) PNone of
         Responded fs response actions \<Rightarrow>
           fs ''workflow_complete'' = Some (PBool False) \<and>
           fs ''suggested_actions'' = Some (PList []) \<and> actions = PList []
       | HTTP500 e \<Rightarrow> False
       | Propagated e \<Rightarrow> False)
   \<and> (case chat_endpoint (\<lambda>v. []) [] quiet_env no_post_booking TimedOut info_request
              (PList []) PNone of
         Responded fs response actions \<Rightarrow> False
       | HTTP500 e \<Rightarrow> True
       | Propagated e \<Rightarrow> False)
   \<and> snd (generate_response (\<lambda>v. []) empty_reply (Inl (RuntimeError ''unused'')) turn_state
            NoConfig) = Inr empty_delta
   \<and> (case chat_endpoint (\<lambda>v. []) [] quiet_env no_post_booking
              (Completed (merge turn_state empty_delta)) plain_request (PList []) PNone of
         Responded fs response actions \<Rightarrow>
           fs ''response_message'' = Some (PStr []) \<and> \<not> terminal_shape fs \<and>
           response = PStr ''I'm here to help!''
       | HTTP500 e \<Rightarrow> False
       | Propagated e \<Rightarrow> False)"
proof -
  have a: "case chat_endpoint (\<lambda>v. []) [] quiet_env no_post_booking TimedOut cancel_request
                  (PList []) PNone of
             Responded fs response actions \<Rightarrow>
               fs ''workflow_complete'' = Some (PBool False) \<and> \<not> terminal_shape fs
           | HTTP500 e \<Rightarrow> False
           | Propagated e \<Rightarrow> False"
    by (simp add: chat_endpoint_def final_state_def Let_def bnd_def terminal_shape_def merge_def
          initial_state_def get_none_def get_or_def is_booking_action_def
          booking_action_types_def cancel_request_def process_user_action_def handle_cancel_def)
  have b: "case chat_endpoint (\<lambda>v. []) [] quiet_env no_post_booking TimedOut book_request
                  (PList []) PNone of
             Responded fs response actions \<Rightarrow>
               fs ''workflow_complete'' = Some (PBool False) \<and>
               fs ''suggested_actions'' = Some (PList []) \<and> actions = PList []
           | HTTP500 e \<Rightarrow> False
           | Propagated e \<Rightarrow> False"
    by (simp add: chat_endpoint_def final_state_def Let_def bnd_def merge_def
          initial_state_def get_none_def get_or_def is_booking_action_def
          booking_action_types_def book_request_def process_user_action_def
          handle_booking_request_def response_actions_def updates_get_def py_or_def)
  have c: "case chat_endpoint (\<lambda>v. []) [] quiet_env no_post_booking TimedOut info_request
                  (PList []) PNone of
             Responded fs response actions \<Rightarrow> False
           | HTTP500 e \<Rightarrow> True
           | Propagated e \<Rightarrow> False"
    by (simp add: chat_endpoint_def final_state_def Let_def bnd_def merge_def
          initial_state_def get_none_def get_or_def is_booking_action_def
          booking_action_types_def info_request_def process_user_action_def
          handle_info_collection_def py_or_def required_fields_order_def)
  note d = empty_delta_returned
  have e: "case chat_endpoint (\<lambda>v. []) [] quiet_env no_post_booking
                  (Completed (merge turn_state empty_delta)) plain_request (PList []) PNone of
             Responded fs response actions \<Rightarrow>
               fs ''response_message'' = Some (PStr []) \<and> \<not> terminal_shape fs \<and>
               response = PStr ''I'm here to help!''
           | HTTP500 e \<Rightarrow> False
           | Propagated e \<Rightarrow> False"
    by (simp add: chat_endpoint_def final_state_def Let_def bnd_def terminal_shape_def merge_def
          get_none_def get_or_def is_booking_action_def booking_action_types_def
          plain_request_def empty_delta_def turn_state_def response_text_def
          response_actions_def updates_get_def py_or_def)
  from a b c d e show ?thesis by (intro conjI)
qed

end
